theory Spec2Isabelle
  imports Main "HOL-Library.Sublist"
begin

section \<open>Strings and patterns\<close>

text \<open>
  Go strings are byte strings; they are modelled as \<^typ>\<open>string\<close>, one
  \<^typ>\<open>char\<close> per byte. The validation patterns of
  \<^verbatim>\<open>scripts/init.go\<close> only use ASCII classes, so a byte outside ASCII
  never matches a class, as no rune outside ASCII does in Go.
\<close>

subsection \<open>Regular expressions\<close>

text \<open>
  The fragment of the \<^verbatim>\<open>regexp\<close> syntax that the two patterns use:
  character classes given by their ranges, sequencing and the star. Both patterns are written
  \<^verbatim>\<open>^...$\<close> without the multi-line flag, so that
  \<^verbatim>\<open>regexp.MatchString\<close> holds exactly when the whole input is matched by
  what stands between the anchors; \<open>matches\<close> is that whole-string match.
  \<open>Fail\<close>, \<open>Empty\<close> and \<open>Alt\<close> are needed for the
  derivatives only.
\<close>

datatype regex =
    Fail
  | Empty
  | Class "(char \<times> char) list"
  | Seq regex regex
  | Alt regex regex
  | Rep regex

definition in_class :: "(char \<times> char) list \<Rightarrow> char \<Rightarrow> bool" where
  "in_class rs c =
     list_ex (\<lambda>(lo, hi). (of_char lo :: nat) \<le> of_char c \<and> (of_char c :: nat) \<le> of_char hi) rs"

primrec nullable :: "regex \<Rightarrow> bool" where
  "nullable Fail = False"
| "nullable Empty = True"
| "nullable (Class rs) = False"
| "nullable (Seq a b) = (nullable a \<and> nullable b)"
| "nullable (Alt a b) = (nullable a \<or> nullable b)"
| "nullable (Rep a) = True"

primrec deriv :: "char \<Rightarrow> regex \<Rightarrow> regex" where
  "deriv c Fail = Fail"
| "deriv c Empty = Fail"
| "deriv c (Class rs) = (if in_class rs c then Empty else Fail)"
| "deriv c (Seq a b) =
     (if nullable a then Alt (Seq (deriv c a) b) (deriv c b) else Seq (deriv c a) b)"
| "deriv c (Alt a b) = Alt (deriv c a) (deriv c b)"
| "deriv c (Rep a) = Seq (deriv c a) (Rep a)"

primrec matches :: "regex \<Rightarrow> string \<Rightarrow> bool" where
  "matches r [] = nullable r"
| "matches r (c # cs) = matches (deriv c r) cs"

text \<open>The strings a pattern denotes, as the reference the matcher is checked against.\<close>

definition conc :: "string set \<Rightarrow> string set \<Rightarrow> string set" where
  "conc A B = {u @ v | u v. u \<in> A \<and> v \<in> B}"

inductive_set star :: "string set \<Rightarrow> string set" for A :: "string set" where
  star_nil: "[] \<in> star A"
| star_app: "u \<in> A \<Longrightarrow> v \<in> star A \<Longrightarrow> u @ v \<in> star A"

primrec lang :: "regex \<Rightarrow> string set" where
  "lang Fail = {}"
| "lang Empty = {[]}"
| "lang (Class rs) = {[c] | c. in_class rs c}"
| "lang (Seq a b) = conc (lang a) (lang b)"
| "lang (Alt a b) = lang a \<union> lang b"
| "lang (Rep a) = star (lang a)"

subsection \<open>The validation patterns\<close>

text \<open>
  \<^verbatim>\<open>projectNamePattern = `^[a-zA-Z0-9][a-zA-Z0-9-]*[a-zA-Z0-9]$`\<close>

  \<^verbatim>\<open>modulePathPattern = `^[a-zA-Z0-9][a-zA-Z0-9-_.]*[a-zA-Z0-9]/` +\<close>
  \<^verbatim>\<open> `[a-zA-Z0-9][a-zA-Z0-9-_.]*[a-zA-Z0-9]/[a-zA-Z0-9][a-zA-Z0-9-]*[a-zA-Z0-9]$`\<close>

  In the class \<^verbatim>\<open>[a-zA-Z0-9-_.]\<close> the hyphen follows a complete range, so
  it stands for itself, and so do the underscore and the dot.
\<close>

definition cls_alnum :: "(char \<times> char) list" where
  "cls_alnum = [(CHR ''a'', CHR ''z''), (CHR ''A'', CHR ''Z''), (CHR ''0'', CHR ''9'')]"

definition cls_alnum_hyphen :: "(char \<times> char) list" where
  "cls_alnum_hyphen = cls_alnum @ [(CHR ''-'', CHR ''-'')]"

definition cls_alnum_hyphen_us_dot :: "(char \<times> char) list" where
  "cls_alnum_hyphen_us_dot =
     cls_alnum @ [(CHR ''-'', CHR ''-''), (CHR ''_'', CHR ''_''), (CHR ''.'', CHR ''.'')]"

definition cls_slash :: "(char \<times> char) list" where
  "cls_slash = [(CHR ''/'', CHR ''/'')]"

definition projectNamePattern :: regex where
  "projectNamePattern =
     Seq (Class cls_alnum) (Seq (Rep (Class cls_alnum_hyphen)) (Class cls_alnum))"

definition modulePathPattern :: regex where
  "modulePathPattern =
     Seq (Class cls_alnum) (Seq (Rep (Class cls_alnum_hyphen_us_dot)) (Seq (Class cls_alnum)
    (Seq (Class cls_slash)
    (Seq (Class cls_alnum) (Seq (Rep (Class cls_alnum_hyphen_us_dot)) (Seq (Class cls_alnum)
    (Seq (Class cls_slash)
    (Seq (Class cls_alnum) (Seq (Rep (Class cls_alnum_hyphen)) (Class cls_alnum))))))))))"

text \<open>
  \<^verbatim>\<open>regexp.MatchString\<close> returns an error when the pattern does not
  compile. The patterns here are given compiled, so the error branch of the callers is kept but
  never taken.
\<close>

definition MatchString :: "regex \<Rightarrow> string \<Rightarrow> string + bool" where
  "MatchString pattern s = Inr (matches pattern s)"

definition isValidProjectName :: "string \<Rightarrow> bool" where
  "isValidProjectName name =
     (case MatchString projectNamePattern name of
        Inl err \<Rightarrow> False
      | Inr matched \<Rightarrow> matched \<and> length name > 0)"

definition isValidModulePath :: "string \<Rightarrow> bool" where
  "isValidModulePath path =
     (case MatchString modulePathPattern path of
        Inl err \<Rightarrow> False
      | Inr matched \<Rightarrow> matched)"

text \<open>
  The shape of one path segment: at least two bytes, the first and the last from
  \<open>ends\<close>, all from \<open>inner\<close>.
\<close>

definition segment_shape :: "(char \<times> char) list \<Rightarrow> (char \<times> char) list \<Rightarrow> string \<Rightarrow> bool" where
  "segment_shape ends inner x =
     (2 \<le> length x \<and> in_class ends (hd x) \<and> in_class ends (last x) \<and> list_all (in_class inner) x)"

primrec split_on :: "char \<Rightarrow> string \<Rightarrow> string list" where
  "split_on d [] = [[]]"
| "split_on d (c # cs) =
     (if c = d then [] # split_on d cs
      else (case split_on d cs of [] \<Rightarrow> [[c]] | x # xs \<Rightarrow> (c # x) # xs))"

text \<open>
  The module path as the specification words it: exactly three slash-separated segments, each
  beginning and ending with an alphanumeric and with \<^verbatim>\<open>-\<close>,
  \<^verbatim>\<open>_\<close> and \<^verbatim>\<open>.\<close> allowed inside.
\<close>

definition spec_segment :: "string \<Rightarrow> bool" where
  "spec_segment x =
     (x \<noteq> [] \<and> in_class cls_alnum (hd x) \<and> in_class cls_alnum (last x)
      \<and> list_all (in_class cls_alnum_hyphen_us_dot) x)"

definition spec_module_path :: "string \<Rightarrow> bool" where
  "spec_module_path s =
     (case split_on (CHR ''/'') s of
        [a, b, c] \<Rightarrow> spec_segment a \<and> spec_segment b \<and> spec_segment c
      | _ \<Rightarrow> False)"

subsection \<open>String functions of the standard library\<close>

text \<open>
  \<^verbatim>\<open>strings.ToLower\<close>, restricted to its effect on ASCII letters: a byte
  from \<^verbatim>\<open>A\<close> to \<^verbatim>\<open>Z\<close> gets bit 5 set, every other
  byte is kept. (No rune outside ASCII lowers to \<^verbatim>\<open>y\<close>,
  \<^verbatim>\<open>e\<close> or \<^verbatim>\<open>s\<close>, and none lowers to or from white
  space, so the answers of \<open>promptBool\<close> below are those of the source on every
  input.)
\<close>

definition toLower :: "char \<Rightarrow> char" where
  "toLower c =
     (if 0x41 \<le> (of_char c :: nat) \<and> (of_char c :: nat) \<le> 0x5A
      then (case c of Char b0 b1 b2 b3 b4 b5 b6 b7 \<Rightarrow> Char b0 b1 b2 b3 b4 True b6 b7)
      else c)"

definition ToLower :: "string \<Rightarrow> string" where
  "ToLower s = map toLower s"

text \<open>
  \<^verbatim>\<open>strings.TrimSpace\<close> removes the leading and then the trailing runes
  for which \<^verbatim>\<open>unicode.IsSpace\<close> holds. On bytes these are the six ASCII
  spaces and the UTF-8 encodings of U+0085, U+00A0, U+1680, U+2000 to U+200A, U+2028, U+2029,
  U+202F, U+205F and U+3000.
\<close>

definition space1 :: "char \<Rightarrow> bool" where
  "space1 a = (a \<in> set [CHR 0x09, CHR 0x0A, CHR 0x0B, CHR 0x0C, CHR 0x0D, CHR 0x20])"

definition space2 :: "char \<Rightarrow> char \<Rightarrow> bool" where
  "space2 a b = (a = CHR 0xC2 \<and> (b = CHR 0x85 \<or> b = CHR 0xA0))"

definition space3 :: "char \<Rightarrow> char \<Rightarrow> char \<Rightarrow> bool" where
  "space3 a b c =
     ((a = CHR 0xE1 \<and> b = CHR 0x9A \<and> c = CHR 0x80)
    \<or> (a = CHR 0xE2 \<and> b = CHR 0x80
         \<and> ((0x80 \<le> (of_char c :: nat) \<and> (of_char c :: nat) \<le> 0x8A)
              \<or> c = CHR 0xA8 \<or> c = CHR 0xA9 \<or> c = CHR 0xAF))
    \<or> (a = CHR 0xE2 \<and> b = CHR 0x81 \<and> c = CHR 0x9F)
    \<or> (a = CHR 0xE3 \<and> b = CHR 0x80 \<and> c = CHR 0x80))"

fun TrimLeftSpace :: "string \<Rightarrow> string" where
  "TrimLeftSpace (a # b # c # s) =
     (if space1 a then TrimLeftSpace (b # c # s)
      else if space2 a b then TrimLeftSpace (c # s)
      else if space3 a b c then TrimLeftSpace s
      else a # b # c # s)"
| "TrimLeftSpace [a, b] =
     (if space1 a then TrimLeftSpace [b] else if space2 a b then [] else [a, b])"
| "TrimLeftSpace [a] = (if space1 a then [] else [a])"
| "TrimLeftSpace [] = []"

text \<open>The same from the end, on the reversed string: \<open>c\<close> is the last byte.\<close>

fun TrimRightSpaceRev :: "string \<Rightarrow> string" where
  "TrimRightSpaceRev (c # b # a # s) =
     (if space1 c then TrimRightSpaceRev (b # a # s)
      else if space2 b c then TrimRightSpaceRev (a # s)
      else if space3 a b c then TrimRightSpaceRev s
      else c # b # a # s)"
| "TrimRightSpaceRev [c, b] =
     (if space1 c then TrimRightSpaceRev [b] else if space2 b c then [] else [c, b])"
| "TrimRightSpaceRev [c] = (if space1 c then [] else [c])"
| "TrimRightSpaceRev [] = []"

definition TrimSpace :: "string \<Rightarrow> string" where
  "TrimSpace s = rev (TrimRightSpaceRev (rev (TrimLeftSpace s)))"

definition HasSuffix :: "string \<Rightarrow> string \<Rightarrow> bool" where
  "HasSuffix s suf = (length suf \<le> length s \<and> drop (length s - length suf) s = suf)"

text \<open>
  \<^verbatim>\<open>strings.ReplaceAll\<close> for a non-empty \<open>old\<close>: the
  occurrences are replaced from left to right, without overlap. (For an empty \<open>old\<close>
  Go inserts \<open>new\<close> around every rune; the one caller passes a non-empty constant,
  and that case is left as the identity here.)
\<close>

fun ReplaceAll :: "string \<Rightarrow> string \<Rightarrow> string \<Rightarrow> string" where
  "ReplaceAll [] old new = []"
| "ReplaceAll (c # s) old new =
     (if old \<noteq> [] \<and> prefix old (c # s)
      then new @ ReplaceAll (drop (length old) (c # s)) old new
      else c # ReplaceAll s old new)"

text \<open>\<^verbatim>\<open>filepath.Base\<close> on a Unix path.\<close>

definition Base :: "string \<Rightarrow> string" where
  "Base path =
     (if path = [] then ''.''
      else let stripped = rev (dropWhile (\<lambda>c. c = CHR ''/'') (rev path));
               element = rev (takeWhile (\<lambda>c. c \<noteq> CHR ''/'') (rev stripped))
           in if element = [] then ''/'' else element)"

section \<open>The world the initializer runs in\<close>

subsection \<open>Configuration, errors and events\<close>

record ProjectConfig =
  ProjectName :: string
  ModulePath :: string
  Description :: string
  Author :: string
  Email :: string
  License :: string
  EnableCLI :: bool
  EnableServer :: bool
  EnableWorker :: bool
  EnableDocs :: bool
  EnableE2ETests :: bool
  GitRemote :: string

type_synonym path = string

text \<open>
  Go \<^verbatim>\<open>error\<close> values: the end of the input stream, the failures of a
  system call on a path, an external command that did not exit with status 0, a fixed message
  (\<^verbatim>\<open>fmt.Errorf\<close> without \<^verbatim>\<open>%w\<close>) and a wrapped
  error (\<^verbatim>\<open>fmt.Errorf("...: %w", err)\<close>).
\<close>

datatype error =
    EOF
  | ENOENT path
  | EACCES path
  | EISDIR path
  | ENOTEMPTY path
  | ExitError "string list"
  | Errorf string
  | Wrapped string error

definition IsNotExist :: "error \<Rightarrow> bool" where
  "IsNotExist err = (case err of ENOENT p \<Rightarrow> True | _ \<Rightarrow> False)"

text \<open>
  What a run does, in order: text written to the terminal (without the pictographs and the blank
  lines that open some of the source's messages, and with the six lines of the configuration
  summary as one), a warning that prints an error, and every call that can change something
  outside the process. \<open>SysQuery\<close> is the read-only
  \<^verbatim>\<open>git config --global <key>\<close>.
\<close>

datatype event =
    Print string
  | Warn string error
  | SysQuery "string list"
  | SysWriteFile path
  | SysRemove path
  | SysRemoveAll path
  | SysExec "string list"
  | SysKill

fun is_mutation :: "event \<Rightarrow> bool" where
  "is_mutation (Print s) = False"
| "is_mutation (Warn s err) = False"
| "is_mutation (SysQuery argv) = False"
| "is_mutation (SysWriteFile p) = True"
| "is_mutation (SysRemove p) = True"
| "is_mutation (SysRemoveAll p) = True"
| "is_mutation (SysExec argv) = True"
| "is_mutation SysKill = True"

subsection \<open>The file tree\<close>

text \<open>
  The tree below the working directory: every file and directory with its path relative to the
  working directory (\<^verbatim>\<open>cmd/cli/main.go\<close>), listed in the order in which
  \<^verbatim>\<open>filepath.Walk(".")\<close> visits them. Symbolic links are not modelled. A
  path in \<open>noaccess\<close> cannot be looked at (every call on it fails), a path in
  \<open>readonly\<close> can be read but neither written nor removed: they stand for the
  permission failures of the operating system.
\<close>

datatype node = File (file_content: string) (file_mode: nat) | Dir (file_mode: nat)

fun IsDir :: "node \<Rightarrow> bool" where
  "IsDir (Dir m) = True"
| "IsDir (File c m) = False"

type_synonym tree = "(path \<times> node) list"

record world =
  tree :: tree
  noaccess :: "path list"
  readonly :: "path list"
  stdin :: string
  events :: "event list"

text \<open>
  What the model takes as given: the process environment, the external tools and the three long
  documents the initializer renders, whose wording no property here depends on.
  \<open>run\<close> is a synchronous external command (\<^verbatim>\<open>git\<close>,
  \<^verbatim>\<open>pre-commit\<close>): whether it exits with status 0 and what it does to the
  tree. \<open>spawn\<close> is the commit that runs against a timer of the given number of
  seconds.
\<close>

datatype race =
    Completed bool
  | TimedOut bool bool

record env =
  getwd :: "string option"
  getenv :: "string \<Rightarrow> string"
  git_global :: "string \<Rightarrow> string option"
  run :: "string list \<Rightarrow> tree \<Rightarrow> bool \<times> tree"
  spawn :: "string list \<Rightarrow> nat \<Rightarrow> tree \<Rightarrow> race \<times> tree"
  doc_order :: bool
  readme_text :: "ProjectConfig \<Rightarrow> string"
  index_text :: "ProjectConfig \<Rightarrow> string"
  getting_started_text :: "ProjectConfig \<Rightarrow> string"

definition emit :: "event \<Rightarrow> world \<Rightarrow> world" where
  "emit e w = w\<lparr>events := events w @ [e]\<rparr>"

definition lookup :: "world \<Rightarrow> path \<Rightarrow> node option" where
  "lookup w p = map_of (tree w) p"

definition locked :: "world \<Rightarrow> path \<Rightarrow> bool" where
  "locked w p = (p \<in> set (noaccess w) \<or> p \<in> set (readonly w))"

text \<open>\<open>under d p\<close>: the path \<open>p\<close> is \<open>d\<close> itself or lies below the directory \<open>d\<close>.\<close>

definition under :: "path \<Rightarrow> path \<Rightarrow> bool" where
  "under d p = (p = d \<or> prefix (d @ ''/'') p)"

definition parent :: "path \<Rightarrow> path option" where
  "parent p =
     (if CHR ''/'' \<in> set p then Some (rev (tl (dropWhile (\<lambda>c. c \<noteq> CHR ''/'') (rev p))))
      else None)"

subsection \<open>System calls\<close>

text \<open>
  A step that can fail returns the error (\<open>None\<close> for Go's
  \<^verbatim>\<open>nil\<close>) with the world it leaves. \<open>andThen\<close> is the
  source's \<^verbatim>\<open>if err := step; err != nil { return err }\<close>, and
  \<open>wrapErr\<close> its \<^verbatim>\<open>return fmt.Errorf("...: %w", err)\<close>.
\<close>

type_synonym step = "error option \<times> world"

definition andThen :: "step \<Rightarrow> (world \<Rightarrow> step) \<Rightarrow> step" where
  "andThen r f = (case r of (Some err, w) \<Rightarrow> (Some err, w) | (None, w) \<Rightarrow> f w)"

definition wrapErr :: "string \<Rightarrow> step \<Rightarrow> step" where
  "wrapErr msg r = (case r of (Some err, w) \<Rightarrow> (Some (Wrapped msg err), w) | (None, w) \<Rightarrow> (None, w))"

definition osStat :: "path \<Rightarrow> world \<Rightarrow> error + node" where
  "osStat p w =
     (if p \<in> set (noaccess w) then Inl (EACCES p)
      else case lookup w p of None \<Rightarrow> Inl (ENOENT p) | Some n \<Rightarrow> Inr n)"

definition osReadFile :: "path \<Rightarrow> world \<Rightarrow> error + string" where
  "osReadFile p w =
     (if p \<in> set (noaccess w) then Inl (EACCES p)
      else case lookup w p of
             None \<Rightarrow> Inl (ENOENT p)
           | Some (Dir m) \<Rightarrow> Inl (EISDIR p)
           | Some (File c m) \<Rightarrow> Inr c)"

text \<open>
  \<^verbatim>\<open>os.WriteFile\<close> (and \<^verbatim>\<open>os.Create\<close> followed by
  the write): an existing file is truncated and written and keeps its mode; a missing file is
  created with the given mode (the umask is not modelled) if its directory exists.
\<close>

definition osWriteFile :: "path \<Rightarrow> string \<Rightarrow> nat \<Rightarrow> world \<Rightarrow> step" where
  "osWriteFile p data m w =
     (let w1 = emit (SysWriteFile p) w in
      if locked w p then (Some (EACCES p), w1)
      else case lookup w p of
             Some (Dir m') \<Rightarrow> (Some (EISDIR p), w1)
           | Some (File c m') \<Rightarrow>
               (None, w1\<lparr>tree := map (\<lambda>(q, n). if q = p then (q, File data m') else (q, n)) (tree w)\<rparr>)
           | None \<Rightarrow>
               (case parent p of
                  None \<Rightarrow> (None, w1\<lparr>tree := tree w @ [(p, File data m)]\<rparr>)
                | Some d \<Rightarrow>
                    (case lookup w d of
                       Some (Dir m') \<Rightarrow> (None, w1\<lparr>tree := tree w @ [(p, File data m)]\<rparr>)
                     | _ \<Rightarrow> (Some (ENOENT p), w1))))"

text \<open>\<^verbatim>\<open>os.Remove\<close>: a file or an empty directory.\<close>

definition osRemove :: "path \<Rightarrow> world \<Rightarrow> step" where
  "osRemove p w =
     (let w1 = emit (SysRemove p) w in
      case lookup w p of
        None \<Rightarrow> (Some (ENOENT p), w1)
      | Some n \<Rightarrow>
          if locked w p then (Some (EACCES p), w1)
          else if IsDir n \<and> list_ex (\<lambda>(q, n'). q \<noteq> p \<and> under p q) (tree w)
          then (Some (ENOTEMPTY p), w1)
          else (None, w1\<lparr>tree := filter (\<lambda>(q, n'). q \<noteq> p) (tree w)\<rparr>))"

text \<open>
  \<^verbatim>\<open>os.RemoveAll\<close> removes the path and everything below it, returns
  \<^verbatim>\<open>nil\<close> when the path does not exist, and otherwise removes everything
  it can and returns the first error it met. An entry stays when it is locked or when a locked
  entry lies below it.
\<close>

definition pinned :: "world \<Rightarrow> path \<Rightarrow> bool" where
  "pinned w q = list_ex (\<lambda>(f, n). locked w f \<and> under q f) (tree w)"

definition osRemoveAll :: "path \<Rightarrow> world \<Rightarrow> step" where
  "osRemoveAll p w =
     (let w1 = emit (SysRemoveAll p) w;
          w2 = w1\<lparr>tree := filter (\<lambda>(q, n). \<not> under p q \<or> pinned w q) (tree w)\<rparr>
      in case filter (\<lambda>(q, n). under p q \<and> locked w q) (tree w) of
           [] \<Rightarrow> (None, w2)
         | (q, n) # rest \<Rightarrow> (Some (EACCES q), w2))"

definition runCmd :: "env \<Rightarrow> string list \<Rightarrow> world \<Rightarrow> step" where
  "runCmd E argv w =
     (case run E argv (tree w) of
        (ok, t) \<Rightarrow> (if ok then None else Some (ExitError argv), (emit (SysExec argv) w)\<lparr>tree := t\<rparr>))"

text \<open>
  \<^verbatim>\<open>bufio.Reader.ReadString('\n')\<close> on the standard input: the next line
  with its newline, or, when no newline is left, the rest of the input with
  \<^verbatim>\<open>io.EOF\<close>.
\<close>

definition ReadString :: "world \<Rightarrow> (string \<times> error option) \<times> world" where
  "ReadString w =
     (let inp = stdin w in
      if CHR 0x0A \<in> set inp
      then ((takeWhile (\<lambda>c. c \<noteq> CHR 0x0A) inp @ [CHR 0x0A], None),
            w\<lparr>stdin := tl (dropWhile (\<lambda>c. c \<noteq> CHR 0x0A) inp)\<rparr>)
      else ((inp, Some EOF), w\<lparr>stdin := []\<rparr>))"

section \<open>The initializer\<close>

subsection \<open>Prompts\<close>

definition prompt :: "string \<Rightarrow> world \<Rightarrow> string \<times> world" where
  "prompt question w =
     (case ReadString (emit (Print (question @ '': '')) w) of
        ((answer, err), w') \<Rightarrow>
          if err \<noteq> None then ([], w') else (TrimSpace answer, w'))"

definition promptWithDefault :: "string \<Rightarrow> string \<Rightarrow> world \<Rightarrow> string \<times> world" where
  "promptWithDefault question defaultValue w =
     (case ReadString (emit (Print (question @ '' ['' @ defaultValue @ '']: '')) w) of
        ((answer, err), w') \<Rightarrow>
          if err \<noteq> None then (defaultValue, w')
          else let answer = TrimSpace answer
               in if answer = [] then (defaultValue, w') else (answer, w'))"

definition promptBool :: "string \<Rightarrow> bool \<Rightarrow> world \<Rightarrow> bool \<times> world" where
  "promptBool question defaultValue w =
     (let defaultStr = (if defaultValue then ''Y/n'' else ''y/N'')
      in case ReadString (emit (Print (question @ '' ['' @ defaultStr @ '']: '')) w) of
           ((answer, err), w') \<Rightarrow>
             if err \<noteq> None then (defaultValue, w')
             else let answer = TrimSpace (ToLower answer)
                  in if answer = [] then (defaultValue, w')
                     else (answer = ''y'' \<or> answer = ''yes'', w'))"

definition getGitConfig :: "env \<Rightarrow> string \<Rightarrow> string \<Rightarrow> world \<Rightarrow> string \<times> world" where
  "getGitConfig E key fallback w =
     (let w' = emit (SysQuery [''git'', ''config'', ''--global'', key]) w
      in case git_global E key of
           None \<Rightarrow> (fallback, w')
         | Some output \<Rightarrow> (TrimSpace output, w'))"

subsection \<open>Gathering the configuration\<close>

text \<open>
  A function that can end the process (\<^verbatim>\<open>os.Exit\<close>) either returns or
  exits with a status.
\<close>

datatype 'a outcome = Returned 'a | Exited nat

definition defaultLicense :: string where "defaultLicense = ''MIT''"
definition defaultAuthor :: string where "defaultAuthor = ''Your Name''"
definition defaultEmail :: string where "defaultEmail = ''your.email@example.com''"

definition gatherProjectInfo :: "env \<Rightarrow> world \<Rightarrow> (error + ProjectConfig) outcome \<times> world" where
  "gatherProjectInfo E w0 =
     (case getwd E of
        None \<Rightarrow> (Returned (Inl (Wrapped ''failed to get current directory'' (Errorf ''getwd''))), w0)
      | Some cwd \<Rightarrow>
     (let defaultProjectName = Base cwd in
      case promptWithDefault ''Project name'' defaultProjectName w0 of (projectName, w1) \<Rightarrow>
      if \<not> isValidProjectName projectName
      then (Returned (Inl (Errorf
              ''invalid project name: must contain only letters, numbers, and hyphens'')), w1)
      else
     (let defaultModulePath = ''github.com/your-org/'' @ projectName in
      case promptWithDefault ''Go module path'' defaultModulePath w1 of (modulePath, w2) \<Rightarrow>
      if \<not> isValidModulePath modulePath
      then (Returned (Inl (Errorf ''invalid module path format'')), w2)
      else
     (case promptWithDefault ''Project description''
             ''A Go application built from go-template-project'' w2 of (description, w3) \<Rightarrow>
      case getGitConfig E ''user.name'' defaultAuthor w3 of (gitAuthor, w4) \<Rightarrow>
      case getGitConfig E ''user.email'' defaultEmail w4 of (gitEmail, w5) \<Rightarrow>
      case promptWithDefault ''Author name'' gitAuthor w5 of (author, w6) \<Rightarrow>
      case promptWithDefault ''Author email'' gitEmail w6 of (email, w7) \<Rightarrow>
      case promptWithDefault ''License'' defaultLicense w7 of (license, w8) \<Rightarrow>
      case promptBool ''Include CLI application'' True
             (emit (Print ''Components to include:'') w8) of (enableCLI, w9) \<Rightarrow>
      case promptBool ''Include HTTP server'' True w9 of (enableServer, w10) \<Rightarrow>
      case promptBool ''Include background worker'' False w10 of (enableWorker, w11) \<Rightarrow>
      case promptBool ''Include documentation setup'' True w11 of (enableDocs, w12) \<Rightarrow>
      case promptBool ''Include E2E tests'' False w12 of (enableE2ETests, w13) \<Rightarrow>
      case prompt ''Git remote URL (optional)'' w13 of (gitRemote, w14) \<Rightarrow>
     (let config = \<lparr> ProjectName = projectName, ModulePath = modulePath,
                      Description = description, Author = author, Email = email,
                      License = license, EnableCLI = enableCLI, EnableServer = enableServer,
                      EnableWorker = enableWorker, EnableDocs = enableDocs,
                      EnableE2ETests = enableE2ETests, GitRemote = gitRemote \<rparr>;
          w15 = emit (Print ''Configuration Summary'') w14
      in case promptBool (CHR 0x0A # ''Proceed with initialization?'') False w15 of (proceed, w16) \<Rightarrow>
         if \<not> proceed then (Exited 0, emit (Print ''Initialization cancelled'') w16)
         else (Returned (Inr config), w16))))))"

subsection \<open>Module manifest and import paths\<close>

text \<open>The file modes \<^verbatim>\<open>0o644\<close> and \<^verbatim>\<open>0o666\<close> (that of \<^verbatim>\<open>os.Create\<close>).\<close>

definition mode_644 :: nat where "mode_644 = 6 * 64 + 4 * 8 + 4"
definition mode_666 :: nat where "mode_666 = 6 * 64 + 6 * 8 + 6"

definition updateGoMod :: "ProjectConfig \<Rightarrow> world \<Rightarrow> step" where
  "updateGoMod config w =
     (let goModContent = ''module '' @ ModulePath config
            @ [CHR 0x0A, CHR 0x0A] @ ''go 1.23'' @ [CHR 0x0A, CHR 0x0A] @ ''require ('' @ [CHR 0x0A, CHR 0x09]
            @ ''// Runtime dependencies will be added as needed'' @ [CHR 0x0A] @ '')'' @ [CHR 0x0A]
      in osWriteFile ''go.mod'' goModContent mode_644 w)"

definition oldPath :: string where
  "oldPath = ''github.com/your-org/go-template-project''"

text \<open>
  The function that \<open>updateImportPaths\<close> hands to
  \<^verbatim>\<open>filepath.Walk\<close>: \<open>err\<close> is the error
  \<^verbatim>\<open>Walk\<close> met on the path, if any.
\<close>

definition rewriteFile :: "ProjectConfig \<Rightarrow> path \<Rightarrow> node \<Rightarrow> error option \<Rightarrow> world \<Rightarrow> step" where
  "rewriteFile config p info err w =
     (case err of
        Some e \<Rightarrow> (Some e, w)
      | None \<Rightarrow>
          if IsDir info \<or> \<not> HasSuffix p ''.go'' then (None, w)
          else case osReadFile p w of
                 Inl e \<Rightarrow> (Some e, w)
               | Inr content \<Rightarrow>
                   (let newContent = ReplaceAll content oldPath (ModulePath config)
                    in if newContent \<noteq> content then osWriteFile p newContent (file_mode info) w
                       else (None, w)))"

text \<open>
  \<^verbatim>\<open>filepath.Walk\<close> over the entries below the root, in order; it stops
  at the first error the function returns. The function here never changes which entries exist,
  so the entries are those of the tree at the start.
\<close>

fun Walk :: "(path \<Rightarrow> node \<Rightarrow> error option \<Rightarrow> world \<Rightarrow> step) \<Rightarrow> tree \<Rightarrow> world \<Rightarrow> step" where
  "Walk fn [] w = (None, w)"
| "Walk fn ((p, info) # rest) w =
     andThen (fn p info (if p \<in> set (noaccess w) then Some (EACCES p) else None) w)
       (Walk fn rest)"

definition updateImportPaths :: "ProjectConfig \<Rightarrow> world \<Rightarrow> step" where
  "updateImportPaths config w = Walk (rewriteFile config) (tree w) w"

subsection \<open>Removing components\<close>

definition removeUnwantedComponents :: "ProjectConfig \<Rightarrow> world \<Rightarrow> step" where
  "removeUnwantedComponents config w =
     andThen (if \<not> EnableCLI config then osRemoveAll ''cmd/cli'' w else (None, w)) (\<lambda>w.
     andThen (if \<not> EnableServer config
              then andThen (osRemoveAll ''cmd/server'' w) (osRemoveAll ''internal/handlers'')
              else (None, w)) (\<lambda>w.
     andThen (if \<not> EnableWorker config then osRemoveAll ''cmd/worker'' w else (None, w)) (\<lambda>w.
     andThen (if \<not> EnableDocs config then osRemoveAll ''docs'' w else (None, w)) (\<lambda>w.
     andThen (if \<not> EnableE2ETests config then osRemoveAll ''tests'' w else (None, w)) (\<lambda>w.
     (None, w))))))"

definition removeFileIfExists :: "path \<Rightarrow> world \<Rightarrow> step" where
  "removeFileIfExists filepath w =
     (case osStat filepath w of
        Inr info \<Rightarrow> osRemove filepath (emit (Print (''Removing '' @ filepath)) w)
      | Inl err \<Rightarrow> if \<not> IsNotExist err then (Some err, w) else (None, w))"

definition removeEmptyDirectory :: "path \<Rightarrow> world \<Rightarrow> step" where
  "removeEmptyDirectory dirpath w =
     (case osStat dirpath w of
        Inl err \<Rightarrow> if IsNotExist err then (None, w) else osRemove dirpath w
      | Inr info \<Rightarrow> osRemove dirpath w)"

definition updateDocumentationFile ::
    "path \<Rightarrow> (ProjectConfig \<Rightarrow> string) \<Rightarrow> ProjectConfig \<Rightarrow> world \<Rightarrow> step" where
  "updateDocumentationFile filepath updateFunc config w =
     (case osStat filepath w of
        Inl err \<Rightarrow> if IsNotExist err then (None, w)
                   else osWriteFile filepath (updateFunc config) mode_644 w
      | Inr info \<Rightarrow> osWriteFile filepath (updateFunc config) mode_644 w)"

text \<open>
  The loop of \<open>cleanupDocumentationReferences\<close> ranges over a Go map of two entries,
  in an order the runtime chooses: \<open>doc_order\<close>.
\<close>

fun updateDocumentationFiles ::
    "(path \<times> (ProjectConfig \<Rightarrow> string)) list \<Rightarrow> ProjectConfig \<Rightarrow> world \<Rightarrow> step" where
  "updateDocumentationFiles [] config w = (None, w)"
| "updateDocumentationFiles ((file, updateFunc) # rest) config w =
     andThen (wrapErr (''failed to update '' @ file) (updateDocumentationFile file updateFunc config w))
       (updateDocumentationFiles rest config)"

definition cleanupDocumentationReferences :: "env \<Rightarrow> ProjectConfig \<Rightarrow> world \<Rightarrow> step" where
  "cleanupDocumentationReferences E config w =
     (let index = (''docs/content/_index.md'', index_text E);
          started = (''docs/content/docs/getting-started.md'', getting_started_text E);
          docFiles = (if doc_order E then [index, started] else [started, index])
      in updateDocumentationFiles docFiles config w)"

fun removeTemplateFiles :: "path list \<Rightarrow> world \<Rightarrow> step" where
  "removeTemplateFiles [] w = (None, w)"
| "removeTemplateFiles (file # rest) w =
     andThen (wrapErr (''failed to remove '' @ file) (removeFileIfExists file w))
       (removeTemplateFiles rest)"

definition cleanupTemplateArtifacts :: "env \<Rightarrow> ProjectConfig \<Rightarrow> world \<Rightarrow> step" where
  "cleanupTemplateArtifacts E config w =
     andThen (removeTemplateFiles [''tests/e2e/init_e2e_test.go'']
                (emit (Print ''Cleaning up template artifacts...'') w)) (\<lambda>w.
     andThen (if EnableE2ETests config
              then andThen (if \<not> EnableCLI config
                            then removeFileIfExists ''tests/e2e/cli_e2e_test.go'' w
                            else (None, w)) (\<lambda>w.
                   andThen (if \<not> EnableServer config
                            then removeFileIfExists ''tests/e2e/server_e2e_test.go'' w
                            else (None, w)) (\<lambda>w.
                   andThen (if \<not> EnableWorker config
                            then removeFileIfExists ''tests/e2e/worker_e2e_test.go'' w
                            else (None, w)) (\<lambda>w.
                   (None, w))))
              else (None, w)) (\<lambda>w.
     andThen (if EnableDocs config
              then wrapErr ''failed to cleanup documentation''
                     (cleanupDocumentationReferences E config w)
              else (None, w)) (\<lambda>w.
     (None, emit (Print ''Scheduled init script for removal'') w))))"

text \<open>
  The README template is a constant that parses; what is left of \<open>generateReadme\<close>
  is \<^verbatim>\<open>os.Create("README.md")\<close> and the write of the rendered text.
\<close>

definition generateReadme :: "env \<Rightarrow> ProjectConfig \<Rightarrow> world \<Rightarrow> step" where
  "generateReadme E config w = osWriteFile ''README.md'' (readme_text E config) mode_666 w"

subsection \<open>Version control and hooks\<close>

text \<open>
  The last step of \<open>initializeGit\<close> starts the commit in a goroutine and selects
  between its result and \<^verbatim>\<open>time.After(10 * time.Second)\<close>. Which of the
  two the select takes is the environment's answer: \<open>Completed ok\<close> when the
  commit's result arrived first, \<open>TimedOut started killed\<close> when the timer did, with
  whether the process had been started and whether killing it succeeded.
\<close>

definition commitTimeoutSeconds :: nat where
  "commitTimeoutSeconds = 10"

definition initializeGit :: "env \<Rightarrow> ProjectConfig \<Rightarrow> world \<Rightarrow> step" where
  "initializeGit E config w =
     andThen (wrapErr ''failed to initialize git'' (runCmd E [''git'', ''init''] w)) (\<lambda>w.
     (let w = (case runCmd E [''git'', ''config'', ''user.name'', Author config] w of
                 (Some err, w') \<Rightarrow> emit (Warn ''Failed to set git user.name'' err) w'
               | (None, w') \<Rightarrow> w');
          w = (case runCmd E [''git'', ''config'', ''user.email'', Email config] w of
                 (Some err, w') \<Rightarrow> emit (Warn ''Failed to set git user.email'' err) w'
               | (None, w') \<Rightarrow> w');
          w = (if GitRemote config \<noteq> []
               then (case runCmd E [''git'', ''remote'', ''add'', ''origin'', GitRemote config] w of
                       (Some err, w') \<Rightarrow> emit (Warn ''Failed to add git remote'' err) w'
                     | (None, w') \<Rightarrow> w')
               else w)
      in
     andThen (wrapErr ''failed to stage files'' (runCmd E [''git'', ''add'', ''.''] w)) (\<lambda>w.
     (let commitMsg = ''feat: initialize '' @ ProjectName config @ '' project''
            @ [CHR 0x0A, CHR 0x0A] @ ''Generated from go-template-project'';
          argv = [''git'', ''commit'', ''-m'', commitMsg]
      in case spawn E argv commitTimeoutSeconds (tree w) of
           (Completed ok, t) \<Rightarrow>
             (if ok then None else Some (Wrapped ''failed to create initial commit'' (ExitError argv)),
              (emit (SysExec argv) w)\<lparr>tree := t\<rparr>)
         | (TimedOut started killed, t) \<Rightarrow>
             (let w = (emit (SysExec argv) w)\<lparr>tree := t\<rparr>;
                  w = (if started
                       then (if \<not> killed
                             then emit (Print ''Warning: failed to kill git commit process'')
                                    (emit SysKill w)
                             else emit SysKill w)
                       else w)
              in (Some (Errorf ''git commit timed out after 10 seconds''), w))))))"

definition setupPreCommitHooks :: "env \<Rightarrow> world \<Rightarrow> step" where
  "setupPreCommitHooks E w =
     (case runCmd E [''pre-commit'', ''--version''] w of
        (Some err, w') \<Rightarrow> (Some (Errorf ''pre-commit not installed''), w')
      | (None, w') \<Rightarrow> runCmd E [''pre-commit'', ''install''] w')"

subsection \<open>The mutation phase\<close>

text \<open>
  \<open>initializeProject\<close> is five required steps, each returning its error, followed by
  four blocks that only report theirs. The blocks are named here after the source's comments.
\<close>

definition requiredSteps :: "env \<Rightarrow> ProjectConfig \<Rightarrow> world \<Rightarrow> step" where
  "requiredSteps E config w =
     andThen (wrapErr ''failed to update go.mod'' (updateGoMod config w)) (\<lambda>w.
     andThen (wrapErr ''failed to update import paths'' (updateImportPaths config w)) (\<lambda>w.
     andThen (wrapErr ''failed to remove unwanted components''
                (removeUnwantedComponents config w)) (\<lambda>w.
     andThen (wrapErr ''failed to clean up template artifacts''
                (cleanupTemplateArtifacts E config w)) (\<lambda>w.
     wrapErr ''failed to generate README'' (generateReadme E config w)))))"

definition gitBlock :: "env \<Rightarrow> ProjectConfig \<Rightarrow> world \<Rightarrow> world" where
  "gitBlock E config w =
     (if getenv E ''SKIP_GIT_INIT'' = []
      then (case initializeGit E config w of
              (Some err, w') \<Rightarrow>
                emit (Print ''   Continuing without git initialization...'')
                  (emit (Warn ''Failed to initialize git'' err) w')
            | (None, w') \<Rightarrow> w')
      else emit (Print ''Skipping git initialization (test environment)'') w)"

definition hooksBlock :: "env \<Rightarrow> world \<Rightarrow> world" where
  "hooksBlock E w =
     (case setupPreCommitHooks E w of
        (Some err, w') \<Rightarrow>
          emit (Print ''   You can set them up later with: pre-commit install'')
            (emit (Warn ''Failed to setup pre-commit hooks'' err) w')
      | (None, w') \<Rightarrow> w')"

definition removeInitScript :: "world \<Rightarrow> world" where
  "removeInitScript w =
     (case osRemove ''scripts/init.go'' (emit (Print ''Removing initialization script...'') w) of
        (Some err, w') \<Rightarrow>
          emit (Print ''   You can remove it manually: rm scripts/init.go'')
            (emit (Warn ''Failed to remove init script'' err) w')
      | (None, w') \<Rightarrow> w')"

definition removeScriptsDirectory :: "world \<Rightarrow> world" where
  "removeScriptsDirectory w =
     (case removeEmptyDirectory ''scripts'' w of
        (Some err, w') \<Rightarrow> emit (Warn ''Could not remove scripts directory'' err) w'
      | (None, w') \<Rightarrow> w')"

definition initializeProject :: "env \<Rightarrow> ProjectConfig \<Rightarrow> world \<Rightarrow> step" where
  "initializeProject E config w =
     andThen (requiredSteps E config w) (\<lambda>w.
       (None, removeScriptsDirectory (removeInitScript (hooksBlock E (gitBlock E config w)))))"

subsection \<open>The program\<close>

text \<open>
  \<open>main\<close> returns the exit status of the process:
  \<^verbatim>\<open>log.Fatalf\<close> prints and exits with status 1, the end of
  \<open>main\<close> is status 0.
\<close>

definition main :: "env \<Rightarrow> world \<Rightarrow> nat \<times> world" where
  "main E w =
     (case gatherProjectInfo E (emit (Print ''Go Template Project Initialization'') w) of
        (Exited status, w') \<Rightarrow> (status, w')
      | (Returned (Inl err), w') \<Rightarrow> (1, emit (Warn ''Failed to gather project info'' err) w')
      | (Returned (Inr config), w') \<Rightarrow>
          (case initializeProject E config w' of
             (Some err, w'') \<Rightarrow> (1, emit (Warn ''Failed to initialize project'' err) w'')
           | (None, w'') \<Rightarrow> (0, emit (Print ''Project initialized successfully!'') w'')))"

section \<open>Definitions for stating and proving the properties\<close>

subsection \<open>The pruner\<close>






subsection \<open>A sample project\<close>



definition sample_config :: ProjectConfig where
  "sample_config =
     \<lparr>ProjectName = ''demo-app'', ModulePath = ''example.com/acme/demo-app'',
      Description = ''A demo'', Author = ''A. Author'', Email = ''author@example.com'',
      License = ''MIT'', EnableCLI = True, EnableServer = False, EnableWorker = False,
      EnableDocs = True, EnableE2ETests = False, GitRemote = []\<rparr>"

subsection \<open>The import rewriter\<close>

text \<open>
  What the specification says of the rewriter: \<open>rewritten\<close> is an entry after the
  rewrite (a regular file whose path ends in \<^verbatim>\<open>.go\<close> has every occurrence
  of the old module path replaced and keeps its mode, every other entry is as before), and
  \<open>changedFiles\<close> lists, in order, the files whose content the replacement changes.
\<close>

definition rewritten :: "ProjectConfig \<Rightarrow> path \<times> node \<Rightarrow> path \<times> node" where
  "rewritten config e =
     (case e of
        (p, File c m) \<Rightarrow>
          if HasSuffix p ''.go'' then (p, File (ReplaceAll c oldPath (ModulePath config)) m)
          else (p, File c m)
      | (p, Dir m) \<Rightarrow> (p, Dir m))"


subsection \<open>The mutation phase\<close>

text \<open>
  The stages of \<open>initializeGit\<close> under names of their own (\<open>tryCmd\<close> is
  a command whose failure is only printed, \<open>gitIdentity\<close> the three such commands,
  \<open>commitStep\<close> the commit against the timer), and sample environments and trees: in
  \<open>sample_env\<close> every external command fails, in \<open>sample_env2\<close> only
  \<^verbatim>\<open>git init\<close> succeeds.
\<close>

definition sample_env :: env where
  "sample_env =
     \<lparr>getwd = Some ''/home/dev/demo-app'', getenv = (\<lambda>name. []), git_global = (\<lambda>key. None),
      run = (\<lambda>argv t. (False, t)), spawn = (\<lambda>argv secs t. (Completed False, t)),
      doc_order = True, readme_text = (\<lambda>config. ''# '' @ ProjectName config),
      index_text = (\<lambda>config. ProjectName config),
      getting_started_text = (\<lambda>config. ProjectName config)\<rparr>"

definition scripts_world :: world where
  "scripts_world =
     \<lparr>tree = [(''scripts'', Dir 493), (''scripts/init.go'', File ''package main'' 420)],
      noaccess = [], readonly = [], stdin = [], events = []\<rparr>"

definition commitArgv :: "ProjectConfig \<Rightarrow> string list" where
  "commitArgv config =
     [''git'', ''commit'', ''-m'',
      ''feat: initialize '' @ ProjectName config @ '' project''
        @ [CHR 0x0A, CHR 0x0A] @ ''Generated from go-template-project'']"

definition tryCmd :: "env \<Rightarrow> string list \<Rightarrow> string \<Rightarrow> world \<Rightarrow> world" where
  "tryCmd E argv msg w =
     (case runCmd E argv w of
        (Some err, w') \<Rightarrow> emit (Warn msg err) w'
      | (None, w') \<Rightarrow> w')"

definition gitIdentity :: "env \<Rightarrow> ProjectConfig \<Rightarrow> world \<Rightarrow> world" where
  "gitIdentity E config w =
     (let w = tryCmd E [''git'', ''config'', ''user.name'', Author config]
                ''Failed to set git user.name'' w;
          w = tryCmd E [''git'', ''config'', ''user.email'', Email config]
                ''Failed to set git user.email'' w
      in if GitRemote config \<noteq> []
         then tryCmd E [''git'', ''remote'', ''add'', ''origin'', GitRemote config]
                ''Failed to add git remote'' w
         else w)"

definition commitStep :: "env \<Rightarrow> ProjectConfig \<Rightarrow> world \<Rightarrow> step" where
  "commitStep E config w =
     (case spawn E (commitArgv config) commitTimeoutSeconds (tree w) of
        (Completed ok, t) \<Rightarrow>
          (if ok then None
           else Some (Wrapped ''failed to create initial commit'' (ExitError (commitArgv config))),
           (emit (SysExec (commitArgv config)) w)\<lparr>tree := t\<rparr>)
      | (TimedOut started killed, t) \<Rightarrow>
          (Some (Errorf ''git commit timed out after 10 seconds''),
           (let w = (emit (SysExec (commitArgv config)) w)\<lparr>tree := t\<rparr>
            in if started
               then (if \<not> killed
                     then emit (Print ''Warning: failed to kill git commit process'') (emit SysKill w)
                     else emit SysKill w)
               else w)))"

definition scripts_world2 :: world where
  "scripts_world2 =
     \<lparr>tree = [(''scripts'', Dir 493), (''scripts/helper.sh'', File ''exit 0'' 493)],
      noaccess = [], readonly = [], stdin = [], events = []\<rparr>"

definition sample_input :: string where
  "sample_input =
     ''demo-app'' @ [CHR 0x0A] @ ''example.com/acme/demo-app'' @ [CHR 0x0A] @ ''A demo'' @ [CHR 0x0A]
     @ ''A. Author'' @ [CHR 0x0A] @ ''author@example.com'' @ [CHR 0x0A] @ [CHR 0x0A]
     @ ''y'' @ [CHR 0x0A] @ ''n'' @ [CHR 0x0A] @ [CHR 0x0A] @ ''Y'' @ [CHR 0x0A] @ [CHR 0x0A]
     @ [CHR 0x0A] @ ''yes'' @ [CHR 0x0A]"

definition sample_env2 :: env where
  "sample_env2 = sample_env\<lparr>run := (\<lambda>argv t. (argv = [''git'', ''init''], t))\<rparr>"

definition sample_config2 :: ProjectConfig where
  "sample_config2 = sample_config\<lparr>GitRemote := ''git@example.com:acme/demo-app.git''\<rparr>"

subsection \<open>Gathering\<close>

text \<open>
  \<open>mutations\<close> are the events of a run that can change something outside the
  process, \<open>linesLeft\<close> the number of lines still to be read from the standard
  input.
\<close>

definition mutations :: "world \<Rightarrow> event list" where
  "mutations w = filter is_mutation (events w)"

definition linesLeft :: "world \<Rightarrow> nat" where
  "linesLeft w = count_list (stdin w) (CHR 0x0A)"

section \<open>Validation: the matcher and the two patterns\<close>

lemma nullable_lang: "nullable r \<longleftrightarrow> [] \<in> lang r"
  by (induction r) (auto simp: conc_def intro: star_nil)

lemma star_cons_split:
  "c # s \<in> star A \<longleftrightarrow> (\<exists>u v. s = u @ v \<and> c # u \<in> A \<and> v \<in> star A)"
proof
  assume "c # s \<in> star A"
  then show "\<exists>u v. s = u @ v \<and> c # u \<in> A \<and> v \<in> star A"
  proof (induction "c # s" arbitrary: s rule: star.induct)
    case (star_app u v)
    show ?case
    proof (cases u)
      case Nil
      with star_app show ?thesis by simp
    next
      case (Cons d u')
      with star_app.hyps(1,2,4) show ?thesis by auto
    qed
  qed
next
  assume "\<exists>u v. s = u @ v \<and> c # u \<in> A \<and> v \<in> star A"
  then obtain u v where "s = u @ v" "c # u \<in> A" "v \<in> star A" by blast
  then show "c # s \<in> star A"
    using star_app [of "c # u" A v] by simp
qed

lemma conc_cons_split:
  "c # s \<in> conc A B \<longleftrightarrow>
     (\<exists>u v. s = u @ v \<and> c # u \<in> A \<and> v \<in> B) \<or> ([] \<in> A \<and> c # s \<in> B)"
  by (auto simp: conc_def Cons_eq_append_conv) 

lemma lang_deriv: "s \<in> lang (deriv c r) \<longleftrightarrow> c # s \<in> lang r"
proof (induction r arbitrary: s)
  case (Seq a b)
  then show ?case
    by (auto simp: conc_cons_split nullable_lang) (auto simp: conc_def)
next
  case (Rep a)
  then show ?case
    by (auto simp: star_cons_split conc_def)
qed auto

lemma matches_lang: "matches r s \<longleftrightarrow> s \<in> lang r"
  by (induction s arbitrary: r) (simp_all add: nullable_lang lang_deriv)

lemma star_class: "s \<in> star {[c] | c. P c} \<longleftrightarrow> (\<forall>c \<in> set s. P c)"
proof (induction s)
  case Nil
  show ?case by (simp add: star_nil)
next
  case (Cons d s)
  show ?case by (subst star_cons_split) (use Cons in auto)
qed

lemma lang_class_cons:
  "s \<in> lang (Seq (Class rs) r) \<longleftrightarrow> (\<exists>c t. s = c # t \<and> in_class rs c \<and> t \<in> lang r)"
proof
  assume "s \<in> lang (Seq (Class rs) r)"
  then show "\<exists>c t. s = c # t \<and> in_class rs c \<and> t \<in> lang r"
    by (auto simp: conc_def)
next
  assume "\<exists>c t. s = c # t \<and> in_class rs c \<and> t \<in> lang r"
  then obtain c t where "s = [c] @ t" "in_class rs c" "t \<in> lang r" by auto
  then show "s \<in> lang (Seq (Class rs) r)"
    unfolding lang.simps conc_def by blast
qed

lemma lang_rep_class_seq:
  "s \<in> lang (Seq (Rep (Class rs)) r) \<longleftrightarrow>
     (\<exists>m t. s = m @ t \<and> (\<forall>c \<in> set m. in_class rs c) \<and> t \<in> lang r)"
  by (auto simp: conc_def star_class)

lemma lang_segment:
  "s \<in> lang (Seq (Class A) (Seq (Rep (Class B)) (Seq (Class A) r))) \<longleftrightarrow>
     (\<exists>x t. s = x @ t \<and> 2 \<le> length x \<and> in_class A (hd x) \<and> in_class A (last x)
        \<and> (\<forall>c \<in> set (butlast (tl x)). in_class B c) \<and> t \<in> lang r)"
  (is "?L \<longleftrightarrow> ?R")
proof
  assume ?L
  then obtain a m b t where s: "s = a # m @ b # t" and a: "in_class A a"
    and m: "\<forall>c \<in> set m. in_class B c" and b: "in_class A b" and t: "t \<in> lang r"
    by (auto simp only: lang_class_cons lang_rep_class_seq)
  have "s = (a # m @ [b]) @ t" using s by simp
  moreover have "butlast (tl (a # m @ [b])) = m" by simp
  ultimately show ?R using a m b t
    by (intro exI [of _ "a # m @ [b]"] exI [of _ t]) simp
next
  assume ?R
  then obtain x t where s: "s = x @ t" and len: "2 \<le> length x" and a: "in_class A (hd x)"
    and b: "in_class A (last x)" and m: "\<forall>c \<in> set (butlast (tl x)). in_class B c"
    and t: "t \<in> lang r" by blast
  from len obtain a y where x: "x = a # y" and yne: "y \<noteq> []"
    by (cases x) (auto simp: Suc_le_eq)
  have "butlast y @ last y # t = (butlast y @ [last y]) @ t" by simp
  also have "\<dots> = y @ t" using yne by simp
  finally have y: "butlast y @ last y # t = y @ t" .
  have m': "\<forall>c \<in> set (butlast y). in_class B c" using m x by simp
  have b': "in_class A (last y)" using b x yne by simp
  have "last y # t \<in> lang (Seq (Class A) r)"
    using b' t by (simp only: lang_class_cons) blast
  then have "butlast y @ last y # t \<in> lang (Seq (Rep (Class B)) (Seq (Class A) r))"
    using m' by (simp only: lang_rep_class_seq) blast
  moreover have "s = a # butlast y @ last y # t"
    using s x y by simp
  ultimately show ?L
    using a x by (subst lang_class_cons) simp
qed

lemma lang_segment_last:
  "s \<in> lang (Seq (Class A) (Seq (Rep (Class B)) (Class A))) \<longleftrightarrow>
     2 \<le> length s \<and> in_class A (hd s) \<and> in_class A (last s)
       \<and> (\<forall>c \<in> set (butlast (tl s)). in_class B c)"
proof -
  have "lang (Seq (Class A) (Seq (Rep (Class B)) (Class A)))
      = lang (Seq (Class A) (Seq (Rep (Class B)) (Seq (Class A) Empty)))"
    by (simp add: conc_def)
  then show ?thesis
    by (simp only: lang_segment) simp
qed

lemma in_class_append: "in_class (rs @ rs') c \<longleftrightarrow> in_class rs c \<or> in_class rs' c"
  by (simp add: in_class_def list_ex_iff) blast

lemma ends_inner_shape:
  assumes sub: "\<And>c. in_class A c \<Longrightarrow> in_class B c"
  shows "(2 \<le> length x \<and> in_class A (hd x) \<and> in_class A (last x)
           \<and> (\<forall>c \<in> set (butlast (tl x)). in_class B c)) \<longleftrightarrow> segment_shape A B x"
proof (cases "2 \<le> length x")
  case False
  then show ?thesis by (simp add: segment_shape_def)
next
  case True
  then obtain a y where x: "x = a # y" and yne: "y \<noteq> []"
    by (cases x) (auto simp: Suc_le_eq)
  have "set y = set (butlast y) \<union> {last y}"
    using arg_cong [OF append_butlast_last_id [OF yne], of set] by simp
  then show ?thesis
    using x yne sub by (auto simp: segment_shape_def list_all_iff)
qed

lemma split_on_not_Nil: "split_on d s \<noteq> []"
  by (induction s) (auto split: list.splits)

lemma split_on_no_delim: "d \<notin> set x \<Longrightarrow> split_on d x = [x]"
  by (induction x) auto

lemma split_on_at_delim: "d \<notin> set x \<Longrightarrow> split_on d (x @ d # rest) = x # split_on d rest"
  by (induction x) auto

lemma split_on_single: "split_on d s = [x] \<longleftrightarrow> s = x \<and> d \<notin> set x"
proof (induction s arbitrary: x)
  case Nil
  show ?case by auto
next
  case (Cons c s)
  show ?case
  proof (cases "c = d")
    case True
    then show ?thesis using split_on_not_Nil [of d s] by auto
  next
    case False
    then show ?thesis
      using Cons [of "tl x"] split_on_not_Nil [of d s]
      by (cases x) (auto split: list.splits)
  qed
qed

lemma split_on_more:
  "split_on d s = x # y # ys \<longleftrightarrow>
     (\<exists>rest. s = x @ d # rest \<and> d \<notin> set x \<and> split_on d rest = y # ys)"
proof (induction s arbitrary: x)
  case Nil
  show ?case by auto
next
  case (Cons c s)
  show ?case
  proof (cases "c = d")
    case True
    then show ?thesis by (auto simp: Cons_eq_append_conv)
  next
    case False
    show ?thesis
    proof (cases x)
      case Nil
      then show ?thesis using False by (auto split: list.splits)
    next
      case (Cons e x')
      then show ?thesis
        using False Cons.IH [of x'] split_on_not_Nil [of d s]
        by (auto split: list.splits)
    qed
  qed
qed

lemma in_class_single: "in_class [(d, d)] c \<longleftrightarrow> c = d"
proof -
  have "(of_char d :: nat) \<le> of_char c \<and> (of_char c :: nat) \<le> of_char d \<longleftrightarrow> c = d"
    by (auto simp: order_antisym_conv)
  then show ?thesis by (simp add: in_class_def)
qed

lemma alnum_sub_hyphen: "in_class cls_alnum c \<Longrightarrow> in_class cls_alnum_hyphen c"
  by (simp add: cls_alnum_hyphen_def in_class_append)

lemma alnum_sub_hud: "in_class cls_alnum c \<Longrightarrow> in_class cls_alnum_hyphen_us_dot c"
  by (simp add: cls_alnum_hyphen_us_dot_def in_class_append)

lemma slash_not_hud: "\<not> in_class cls_alnum_hyphen_us_dot (CHR ''/'')"
  by (simp add: cls_alnum_hyphen_us_dot_def cls_alnum_def in_class_def)

lemma shape_no_slash:
  assumes "segment_shape A B x" and "\<not> in_class B (CHR ''/'')"
  shows "CHR ''/'' \<notin> set x"
  using assms by (auto simp: segment_shape_def list_all_iff)

lemma lang_segment_shape:
  assumes "\<And>c. in_class A c \<Longrightarrow> in_class B c"
  shows "s \<in> lang (Seq (Class A) (Seq (Rep (Class B)) (Seq (Class A) r))) \<longleftrightarrow>
     (\<exists>x t. s = x @ t \<and> segment_shape A B x \<and> t \<in> lang r)"
  unfolding lang_segment using ends_inner_shape [OF assms] by blast

lemma lang_segment_last_shape:
  assumes "\<And>c. in_class A c \<Longrightarrow> in_class B c"
  shows "s \<in> lang (Seq (Class A) (Seq (Rep (Class B)) (Class A))) \<longleftrightarrow> segment_shape A B s"
  unfolding lang_segment_last using ends_inner_shape [OF assms] by blast

lemma lang_slash:
  "s \<in> lang (Seq (Class cls_slash) r) \<longleftrightarrow> (\<exists>t. s = CHR ''/'' # t \<and> t \<in> lang r)"
  by (simp only: lang_class_cons cls_slash_def in_class_single) blast

lemma project_name_lang_shape:
  "s \<in> lang projectNamePattern \<longleftrightarrow> segment_shape cls_alnum cls_alnum_hyphen s"
  unfolding projectNamePattern_def by (rule lang_segment_last_shape [OF alnum_sub_hyphen])

lemma project_name_lang: "isValidProjectName s \<longleftrightarrow> s \<in> lang projectNamePattern"
proof -
  have ne: "s \<in> lang projectNamePattern \<Longrightarrow> s \<noteq> []"
    by (auto simp: project_name_lang_shape segment_shape_def)
  have "isValidProjectName s \<longleftrightarrow> s \<in> lang projectNamePattern \<and> s \<noteq> []"
    by (simp add: isValidProjectName_def MatchString_def matches_lang)
  then show ?thesis using ne by blast
qed

lemma project_name_shape: "isValidProjectName s \<longleftrightarrow> segment_shape cls_alnum cls_alnum_hyphen s"
  by (simp add: project_name_lang project_name_lang_shape)

lemma module_path_lang:
  "s \<in> lang modulePathPattern \<longleftrightarrow>
     (\<exists>a b c. s = a @ CHR ''/'' # b @ CHR ''/'' # c
        \<and> segment_shape cls_alnum cls_alnum_hyphen_us_dot a
        \<and> segment_shape cls_alnum cls_alnum_hyphen_us_dot b
        \<and> segment_shape cls_alnum cls_alnum_hyphen c)"
  unfolding modulePathPattern_def
  by (simp only: lang_segment_shape [OF alnum_sub_hud] lang_segment_last_shape [OF alnum_sub_hyphen]
        lang_slash) blast

lemma slash_not_hyphen: "\<not> in_class cls_alnum_hyphen (CHR ''/'')"
  by (simp add: cls_alnum_hyphen_def cls_alnum_def in_class_def)

lemma module_path_split:
  "isValidModulePath s \<longleftrightarrow>
     (case split_on (CHR ''/'') s of
        [a, b, c] \<Rightarrow> segment_shape cls_alnum cls_alnum_hyphen_us_dot a
                   \<and> segment_shape cls_alnum cls_alnum_hyphen_us_dot b
                   \<and> segment_shape cls_alnum cls_alnum_hyphen c
      | _ \<Rightarrow> False)"
  (is "_ \<longleftrightarrow> ?R")
proof -
  have valid: "isValidModulePath s \<longleftrightarrow> s \<in> lang modulePathPattern"
    by (simp add: isValidModulePath_def MatchString_def matches_lang)
  show ?thesis
  proof
    assume "isValidModulePath s"
    then obtain a b c where s: "s = a @ CHR ''/'' # b @ CHR ''/'' # c"
      and a: "segment_shape cls_alnum cls_alnum_hyphen_us_dot a"
      and b: "segment_shape cls_alnum cls_alnum_hyphen_us_dot b"
      and c: "segment_shape cls_alnum cls_alnum_hyphen c"
      unfolding valid module_path_lang by blast
    have "split_on (CHR ''/'') s = [a, b, c]"
      unfolding s
      using shape_no_slash [OF a slash_not_hud] shape_no_slash [OF b slash_not_hud]
        shape_no_slash [OF c slash_not_hyphen]
      by (simp add: split_on_at_delim split_on_no_delim)
    then show ?R using a b c by simp
  next
    assume r: ?R
    then obtain a b c where sp: "split_on (CHR ''/'') s = [a, b, c]"
      by (auto split: list.splits)
    then have "s = a @ CHR ''/'' # b @ CHR ''/'' # c"
      by (auto simp: split_on_more split_on_single)
    then show "isValidModulePath s"
      unfolding valid module_path_lang using r sp by auto
  qed
qed

subsection \<open>Claims about validation\<close>

text \<open>
  C2, as stated, has the one-character name \<^verbatim>\<open>a\<close> accepted. The pattern
  needs a first and a last character, so \<open>isValidProjectName\<close> rejects it.
\<close>

theorem project_name_single_char_rejected:
  "\<not> isValidProjectName ''a''"
  by (simp add: isValidProjectName_def MatchString_def projectNamePattern_def cls_alnum_def
      cls_alnum_hyphen_def in_class_def)

text \<open>
  C2 (amended): \<open>isValidProjectName\<close> accepts exactly the strings that
  \<^verbatim>\<open>^[A-Za-z0-9][A-Za-z0-9-]*[A-Za-z0-9]$\<close> denotes, which are the
  strings of at least two characters, all alphanumeric or hyphens, whose first and last
  characters are alphanumeric. The one-character name \<^verbatim>\<open>a\<close> is rejected,
  and so are \<^verbatim>\<open>-abc\<close> and \<^verbatim>\<open>abc-\<close>.
\<close>

theorem project_name_validation:
  "(isValidProjectName s \<longleftrightarrow> s \<in> lang projectNamePattern)
   \<and> (isValidProjectName s \<longleftrightarrow>
        2 \<le> length s \<and> in_class cls_alnum (hd s) \<and> in_class cls_alnum (last s)
        \<and> (\<forall>c \<in> set s. in_class cls_alnum_hyphen c))
   \<and> \<not> isValidProjectName ''a''
   \<and> \<not> isValidProjectName ''-abc''
   \<and> \<not> isValidProjectName ''abc-''"
proof (intro conjI)
  show "isValidProjectName s \<longleftrightarrow> s \<in> lang projectNamePattern"
    by (rule project_name_lang)
  show "isValidProjectName s \<longleftrightarrow>
        2 \<le> length s \<and> in_class cls_alnum (hd s) \<and> in_class cls_alnum (last s)
        \<and> (\<forall>c \<in> set s. in_class cls_alnum_hyphen c)"
    unfolding project_name_shape segment_shape_def list_all_iff by (rule refl)
  show "\<not> isValidProjectName ''a''"
    by (simp add: project_name_shape segment_shape_def)
  show "\<not> isValidProjectName ''-abc''"
    by (simp add: project_name_shape segment_shape_def cls_alnum_def in_class_def)
  show "\<not> isValidProjectName ''abc-''"
    by (simp add: project_name_shape segment_shape_def cls_alnum_def in_class_def)
qed

text \<open>C2, at a concrete name.\<close>

theorem project_name_validation_witness:
  "isValidProjectName ''my-app2'' \<and> ''my-app2'' \<in> lang projectNamePattern"
proof -
  note v = project_name_validation [of "''my-app2''"]
  have "isValidProjectName ''my-app2''"
    using v [THEN conjunct2, THEN conjunct1]
    by (simp add: cls_alnum_def cls_alnum_hyphen_def in_class_def)
  then show ?thesis using v [THEN conjunct1] by simp
qed

text \<open>
  C3, as stated, accepts every path of three segments that begin and end with an alphanumeric
  and have \<^verbatim>\<open>-\<close>, \<^verbatim>\<open>_\<close> and
  \<^verbatim>\<open>.\<close> inside. The third segment of the pattern only allows the hyphen
  inside, so a repository name with a dot is rejected.
\<close>

theorem module_path_dotted_repo_rejected:
  "spec_module_path ''github.com/org/my.repo'' \<and> \<not> isValidModulePath ''github.com/org/my.repo''"
  by (simp add: spec_module_path_def spec_segment_def isValidModulePath_def MatchString_def
      modulePathPattern_def cls_alnum_def cls_alnum_hyphen_def cls_alnum_hyphen_us_dot_def
      cls_slash_def in_class_def)

text \<open>
  C3 (amended): \<open>isValidModulePath\<close> accepts a string if and only if it has exactly
  three slash-separated segments, each of at least two characters and beginning and ending with
  an alphanumeric, the first two with alphanumerics, \<^verbatim>\<open>-\<close>,
  \<^verbatim>\<open>_\<close> and \<^verbatim>\<open>.\<close> inside, the third with
  alphanumerics and \<^verbatim>\<open>-\<close> only.
  \<^verbatim>\<open>github.com/org/repo\<close> is accepted,
  \<^verbatim>\<open>invalid-module-path-no-slash\<close> and \<^verbatim>\<open>a/b\<close> are
  rejected.
\<close>

theorem module_path_validation:
  "(isValidModulePath s \<longleftrightarrow>
      (case split_on (CHR ''/'') s of
         [a, b, c] \<Rightarrow> segment_shape cls_alnum cls_alnum_hyphen_us_dot a
                    \<and> segment_shape cls_alnum cls_alnum_hyphen_us_dot b
                    \<and> segment_shape cls_alnum cls_alnum_hyphen c
       | _ \<Rightarrow> False))
   \<and> isValidModulePath ''github.com/org/repo''
   \<and> \<not> isValidModulePath ''invalid-module-path-no-slash''
   \<and> \<not> isValidModulePath ''a/b''"
proof -
  have "isValidModulePath ''github.com/org/repo''"
    "\<not> isValidModulePath ''invalid-module-path-no-slash''"
    "\<not> isValidModulePath ''a/b''"
    by (simp_all add: module_path_split segment_shape_def cls_alnum_def cls_alnum_hyphen_def
        cls_alnum_hyphen_us_dot_def in_class_def)
  then show ?thesis using module_path_split [of s] by simp
qed

text \<open>C3, at two concrete paths.\<close>

theorem module_path_validation_witness:
  "isValidModulePath ''example.com/my_org/my-repo'' \<and> \<not> isValidModulePath ''a/b/c''"
proof -
  have "isValidModulePath ''example.com/my_org/my-repo''"
    unfolding module_path_validation [of "''example.com/my_org/my-repo''", THEN conjunct1]
    by (simp add: segment_shape_def cls_alnum_def cls_alnum_hyphen_def
        cls_alnum_hyphen_us_dot_def in_class_def)
  moreover have "\<not> isValidModulePath ''a/b/c''"
    unfolding module_path_validation [of "''a/b/c''", THEN conjunct1]
    by (simp add: segment_shape_def)
  ultimately show ?thesis by simp
qed

section \<open>Prompts: proofs\<close>

lemma of_char_toLower:
  "(of_char (toLower c) :: nat) =
     (if 0x41 \<le> (of_char c :: nat) \<and> (of_char c :: nat) \<le> 0x5A then of_char c + 32 else of_char c)"
proof (cases c)
  case (Char b0 b1 b2 b3 b4 b5 b6 b7)
  show ?thesis
    unfolding Char toLower_def
    by (cases b5; cases b6; cases b7) (simp_all add: of_char_Char)
qed

lemma toLower_eq_iff:
  assumes "(of_char k :: nat) < 0x41 \<or> 0x7A < (of_char k :: nat)"
  shows "toLower c = k \<longleftrightarrow> c = k"
proof -
  have "toLower c = k \<longleftrightarrow> (of_char (toLower c) :: nat) = of_char k"
    by simp
  also have "\<dots> \<longleftrightarrow> (of_char c :: nat) = of_char k"
    using assms unfolding of_char_toLower by auto
  also have "\<dots> \<longleftrightarrow> c = k" by simp
  finally show ?thesis .
qed

lemma space1_toLower: "space1 (toLower a) = space1 a"
  by (simp add: space1_def toLower_eq_iff)

lemma space2_toLower: "space2 (toLower a) (toLower b) = space2 a b"
  by (simp add: space2_def toLower_eq_iff)

lemma space3_toLower: "space3 (toLower a) (toLower b) (toLower c) = space3 a b c"
proof -
  have "(0x80 \<le> (of_char (toLower c) :: nat) \<and> (of_char (toLower c) :: nat) \<le> 0x8A)
      \<longleftrightarrow> (0x80 \<le> (of_char c :: nat) \<and> (of_char c :: nat) \<le> 0x8A)"
    unfolding of_char_toLower by auto
  then show ?thesis
    by (simp add: space3_def toLower_eq_iff)
qed

lemma TrimLeftSpace_ToLower: "TrimLeftSpace (map toLower s) = map toLower (TrimLeftSpace s)"
  by (induction s rule: TrimLeftSpace.induct)
     (simp_all add: space1_toLower space2_toLower space3_toLower)

lemma TrimRightSpaceRev_ToLower:
  "TrimRightSpaceRev (map toLower s) = map toLower (TrimRightSpaceRev s)"
  by (induction s rule: TrimRightSpaceRev.induct)
     (simp_all add: space1_toLower space2_toLower space3_toLower)

lemma TrimSpace_ToLower: "TrimSpace (ToLower s) = ToLower (TrimSpace s)"
  by (simp add: TrimSpace_def ToLower_def TrimLeftSpace_ToLower TrimRightSpaceRev_ToLower
      rev_map)

lemma promptBool_fst:
  "fst (promptBool question d w) =
     (if CHR 0x0A \<notin> set (stdin w) then d
      else let answer = ToLower (TrimSpace (takeWhile (\<lambda>c. c \<noteq> CHR 0x0A) (stdin w) @ [CHR 0x0A]))
           in if answer = [] then d else answer = ''y'' \<or> answer = ''yes'')"
  by (simp add: promptBool_def ReadString_def emit_def Let_def TrimSpace_ToLower)

text \<open>
  C9: for every boolean prompt and both defaults, a read failure on the input (no newline left)
  returns the default; otherwise, with \<open>answer\<close> the line read, trimmed of white
  space and lowered, an empty \<open>answer\<close> returns the default,
  \<^verbatim>\<open>y\<close> or \<^verbatim>\<open>yes\<close> returns true (so the input may
  be in any letter case), and anything else returns false.
\<close>

theorem promptBool_answers:
  "(CHR 0x0A \<notin> set (stdin w) \<longrightarrow> fst (promptBool question d w) = d)
   \<and> (CHR 0x0A \<in> set (stdin w) \<longrightarrow>
        (let answer = ToLower (TrimSpace (takeWhile (\<lambda>c. c \<noteq> CHR 0x0A) (stdin w) @ [CHR 0x0A]))
         in (answer = [] \<longrightarrow> fst (promptBool question d w) = d)
          \<and> (answer = ''y'' \<or> answer = ''yes'' \<longrightarrow> fst (promptBool question d w))
          \<and> (answer \<noteq> [] \<and> answer \<noteq> ''y'' \<and> answer \<noteq> ''yes''
                \<longrightarrow> \<not> fst (promptBool question d w))))"
  unfolding promptBool_fst by (auto simp: Let_def)

text \<open>C9, on four concrete inputs.\<close>

theorem promptBool_answers_witness:
  "fst (promptBool ''q'' False
         \<lparr>tree = [], noaccess = [], readonly = [], stdin = ''  YeS '' @ [CHR 0x0D, CHR 0x0A] @ ''n'',
          events = []\<rparr>)
   \<and> fst (promptBool ''q'' True
         \<lparr>tree = [], noaccess = [], readonly = [], stdin = [CHR 0x20, CHR 0x0A], events = []\<rparr>)
   \<and> \<not> fst (promptBool ''q'' True
         \<lparr>tree = [], noaccess = [], readonly = [], stdin = ''maybe'' @ [CHR 0x0A], events = []\<rparr>)
   \<and> fst (promptBool ''q'' True
         \<lparr>tree = [], noaccess = [], readonly = [], stdin = ''no newline'', events = []\<rparr>)"
  using
    promptBool_answers [of "\<lparr>tree = [], noaccess = [], readonly = [],
       stdin = ''  YeS '' @ [CHR 0x0D, CHR 0x0A] @ ''n'', events = []\<rparr>" "''q''" False]
    promptBool_answers [of "\<lparr>tree = [], noaccess = [], readonly = [],
       stdin = [CHR 0x20, CHR 0x0A], events = []\<rparr>" "''q''" True]
    promptBool_answers [of "\<lparr>tree = [], noaccess = [], readonly = [],
       stdin = ''maybe'' @ [CHR 0x0A], events = []\<rparr>" "''q''" True]
    promptBool_answers [of "\<lparr>tree = [], noaccess = [], readonly = [],
       stdin = ''no newline'', events = []\<rparr>" "''q''" True]
  by (simp add: Let_def TrimSpace_def ToLower_def toLower_def space1_def space2_def space3_def)

section \<open>The pruner: proofs\<close>

lemma andThen_None [simp]: "andThen (None, w) f = f w"
  by (simp add: andThen_def)

lemma andThen_Some [simp]: "andThen (Some e, w) f = (Some e, w)"
  by (simp add: andThen_def)


lemma andThen_return [simp]: "andThen r (\<lambda>w. (None, w)) = r"
  by (cases r) (auto simp: andThen_def split: option.splits)







lemma locked_emit [simp]: "locked (emit e w) = locked w"
  by (rule ext) (simp add: locked_def emit_def)


lemma locked_update [simp]:
  "locked (w\<lparr>events := ev\<rparr>) = locked w" "locked (w\<lparr>tree := t\<rparr>) = locked w"
  by (rule ext, simp add: locked_def)+

























section \<open>The import rewriter: proofs\<close>






lemma rewritten_fst [simp]: "fst (rewritten config e) = fst e"
  by (cases e; cases "snd e") (auto simp: rewritten_def)




lemma ReplaceAll_at_occurrence:
  "old \<noteq> [] \<Longrightarrow> ReplaceAll (old @ s) old new = new @ ReplaceAll s old new"
  by (cases old) simp_all

lemma ReplaceAll_no_occurrence:
  "(\<And>u v. s \<noteq> u @ old @ v) \<Longrightarrow> ReplaceAll s old new = s"
proof (induction s old new rule: ReplaceAll.induct)
  case (1 old new)
  show ?case by simp
next
  case (2 c s old new)
  have np: "\<not> prefix old (c # s)"
    using "2.prems" [of "[]"] by (auto simp: prefix_def)
  have "\<And>u v. s \<noteq> u @ old @ v"
  proof
    fix u v assume "s = u @ old @ v"
    then have "c # s = (c # u) @ old @ v" by simp
    then show False using "2.prems" by blast
  qed
  then show ?case using np "2.IH"(2) by simp
qed



section \<open>The mutation phase: proofs\<close>

lemma fst_andThen:
  "fst (andThen r f) = (case fst r of Some e \<Rightarrow> Some e | None \<Rightarrow> fst (f (snd r)))"
  by (cases r) (auto simp: andThen_def split: option.splits)

lemma snd_andThen:
  "snd (andThen r f) = (case fst r of Some e \<Rightarrow> snd r | None \<Rightarrow> snd (f (snd r)))"
  by (cases r) (auto simp: andThen_def split: option.splits)

lemma fst_wrapErr: "fst (wrapErr msg r) = map_option (Wrapped msg) (fst r)"
  by (cases r) (auto simp: wrapErr_def split: option.splits)

lemma snd_wrapErr [simp]: "snd (wrapErr msg r) = snd r"
  by (cases r) (auto simp: wrapErr_def split: option.splits)

lemma initializeProject_result:
  "fst (initializeProject E config w) = fst (requiredSteps E config w)"
  by (cases "requiredSteps E config w") (auto simp: initializeProject_def andThen_def split: option.splits)

lemma initializeProject_world:
  "fst (requiredSteps E config w) = None \<Longrightarrow>
   snd (initializeProject E config w) =
     removeScriptsDirectory (removeInitScript (hooksBlock E
       (gitBlock E config (snd (requiredSteps E config w)))))"
  by (cases "requiredSteps E config w") (auto simp: initializeProject_def)

lemma events_emit [simp]: "events (emit e w) = events w @ [e]"
  by (simp add: emit_def)

lemma tree_emit [simp]: "tree (emit e w) = tree w"
  by (simp add: emit_def)

lemma fields_emit [simp]:
  "noaccess (emit e w) = noaccess w" "readonly (emit e w) = readonly w" "stdin (emit e w) = stdin w"
  by (simp_all add: emit_def)

lemma lookup_emit [simp]: "lookup (emit e w) = lookup w"
  by (rule ext) (simp add: lookup_def)

lemma osRemove_events: "events (snd (osRemove p w)) = events w @ [SysRemove p]"
  by (simp add: osRemove_def Let_def split: option.splits)

lemma fst_osRemove_emit [simp]: "fst (osRemove p (emit e w)) = fst (osRemove p w)"
  by (simp add: osRemove_def Let_def split: option.splits)

lemma osStat_emit [simp]: "osStat p (emit e w) = osStat p w"
  by (simp add: osStat_def)

lemma removeInitScript_events:
  "events (removeInitScript w) =
     events w @ [Print ''Removing initialization script...'', SysRemove ''scripts/init.go'']
       @ (case fst (osRemove ''scripts/init.go'' w) of
            None \<Rightarrow> []
          | Some err \<Rightarrow> [Warn ''Failed to remove init script'' err,
                         Print ''   You can remove it manually: rm scripts/init.go''])"
proof -
  obtain r w' where o: "osRemove ''scripts/init.go'' (emit (Print ''Removing initialization script...'') w)
      = (r, w')"
    by (cases "osRemove ''scripts/init.go'' (emit (Print ''Removing initialization script...'') w)")
  have "events w' = events w @ [Print ''Removing initialization script...'', SysRemove ''scripts/init.go'']"
    using osRemove_events [of "''scripts/init.go''" "emit (Print ''Removing initialization script...'') w"]
    by (simp add: o)
  moreover have "fst (osRemove ''scripts/init.go'' w) = r"
    using fst_osRemove_emit [of "''scripts/init.go''" "Print ''Removing initialization script...''" w]
    by (simp add: o)
  ultimately show ?thesis
    by (cases r) (simp_all add: removeInitScript_def o)
qed

lemma removeScriptsDirectory_events:
  "events (removeScriptsDirectory w) =
     events w @ (if osStat ''scripts'' w = Inl (ENOENT ''scripts'') then []
                 else SysRemove ''scripts'' #
                      (case fst (osRemove ''scripts'' w) of
                         None \<Rightarrow> []
                       | Some err \<Rightarrow> [Warn ''Could not remove scripts directory'' err]))"
proof (cases "osStat ''scripts'' w = Inl (ENOENT ''scripts'')")
  case True
  then show ?thesis
    by (simp add: removeScriptsDirectory_def removeEmptyDirectory_def IsNotExist_def)
next
  case False
  then have "removeEmptyDirectory ''scripts'' w = osRemove ''scripts'' w"
    by (auto simp: removeEmptyDirectory_def IsNotExist_def osStat_def
        split: sum.splits error.splits option.splits if_splits)
  then show ?thesis
    using False osRemove_events [of "''scripts''" w]
    by (cases "osRemove ''scripts'' w") (auto simp: removeScriptsDirectory_def split: option.splits)
qed

lemma scripts_required:
  "fst (requiredSteps sample_env sample_config scripts_world) = None"
  by (simp add: requiredSteps_def updateGoMod_def osWriteFile_def Let_def locked_def lookup_def
      parent_def scripts_world_def sample_config_def wrapErr_def mode_644_def emit_def
      updateImportPaths_def rewriteFile_def HasSuffix_def osReadFile_def oldPath_def
      removeUnwantedComponents_def osRemoveAll_def under_def pinned_def
      cleanupTemplateArtifacts_def removeFileIfExists_def osStat_def IsNotExist_def
      cleanupDocumentationReferences_def updateDocumentationFile_def sample_env_def
      generateReadme_def mode_666_def)

lemma runCmd_fst:
  "fst (runCmd E argv w) = (if fst (run E argv (tree w)) then None else Some (ExitError argv))"
  by (simp add: runCmd_def split: prod.splits)

lemma runCmd_events: "events (snd (runCmd E argv w)) = events w @ [SysExec argv]"
  by (simp add: runCmd_def split: prod.splits)

lemma hooksBlock_grows: "prefix (events w) (events (hooksBlock E w))"
  by (auto simp: hooksBlock_def setupPreCommitHooks_def runCmd_def prefix_def
      split: prod.splits option.splits if_splits)

lemma hooksBlock_warns:
  "fst (setupPreCommitHooks E w) = Some err \<Longrightarrow>
   Warn ''Failed to setup pre-commit hooks'' err \<in> set (events (hooksBlock E w))"
  by (cases "setupPreCommitHooks E w") (auto simp: hooksBlock_def)

lemma gitBlock_warns:
  "getenv E ''SKIP_GIT_INIT'' = [] \<Longrightarrow> fst (initializeGit E config w) = Some err \<Longrightarrow>
   Warn ''Failed to initialize git'' err \<in> set (events (gitBlock E config w))"
  by (cases "initializeGit E config w") (auto simp: gitBlock_def)

lemma removeInitScript_grows: "prefix (events w) (events (removeInitScript w))"
  by (simp add: removeInitScript_events)

lemma removeScriptsDirectory_grows: "prefix (events w) (events (removeScriptsDirectory w))"
  by (simp add: removeScriptsDirectory_events)

lemma cleanup_keeps_events:
  "set (events w) \<subseteq> set (events (removeScriptsDirectory (removeInitScript w)))"
  using removeInitScript_grows [of w] removeScriptsDirectory_grows [of "removeInitScript w"]
  by (meson order_trans set_mono_prefix)

lemma initializeGit_stages:
  "initializeGit E config w =
     andThen (wrapErr ''failed to initialize git'' (runCmd E [''git'', ''init''] w)) (\<lambda>w.
     andThen (wrapErr ''failed to stage files'' (runCmd E [''git'', ''add'', ''.''] (gitIdentity E config w)))
       (commitStep E config))"
  unfolding initializeGit_def gitIdentity_def tryCmd_def commitStep_def commitArgv_def Let_def
  by (rule arg_cong [where f = "andThen _"], rule ext, rule arg_cong [where f = "andThen _"], rule ext)
     (simp split: prod.splits race.splits)

lemma tryCmd_events:
  "events (tryCmd E argv msg w) =
     events w @ SysExec argv # (if fst (run E argv (tree w)) then [] else [Warn msg (ExitError argv)])"
  by (simp add: tryCmd_def runCmd_def split: prod.splits)

lemma gitIdentity_grows: "prefix (events w) (events (gitIdentity E config w))"
  by (simp add: gitIdentity_def Let_def tryCmd_events prefix_def)

lemma commitStep_grows: "prefix (events w) (events (snd (commitStep E config w)))"
  by (simp add: commitStep_def Let_def prefix_def split: prod.splits race.splits)

lemma commitStep_results:
  "fst (commitStep E config w) \<in>
     {None,
      Some (Wrapped ''failed to create initial commit'' (ExitError (commitArgv config))),
      Some (Errorf ''git commit timed out after 10 seconds'')}"
  by (simp add: commitStep_def split: prod.splits race.splits)

lemma andThen_grows:
  assumes "prefix (events w) (events (snd r))"
    and "\<And>w'. prefix (events w') (events (snd (f w')))"
  shows "prefix (events w) (events (snd (andThen r f)))"
proof (cases "fst r")
  case None
  then show ?thesis
    using assms(1) assms(2) [of "snd r"] by (simp add: snd_andThen) 
next
  case (Some e)
  then show ?thesis using assms(1) by (simp add: snd_andThen)
qed

lemma runCmd_grows: "prefix (events w) (events (snd (runCmd E argv w)))"
  by (simp add: runCmd_events)

lemma stage_and_commit_grows:
  "prefix (events w)
     (events (snd (andThen (wrapErr msg (runCmd E argv w)) (commitStep E config))))"
  by (rule andThen_grows) (simp_all add: runCmd_events commitStep_grows)

lemma initializeGit_init_fails:
  "\<not> fst (run E [''git'', ''init''] (tree w)) \<Longrightarrow>
   fst (initializeGit E config w)
     = Some (Wrapped ''failed to initialize git'' (ExitError [''git'', ''init'']))"
  by (simp add: initializeGit_stages fst_andThen fst_wrapErr runCmd_fst)

lemma initializeGit_results:
  "fst (initializeGit E config w) \<in>
     {None,
      Some (Wrapped ''failed to initialize git'' (ExitError [''git'', ''init''])),
      Some (Wrapped ''failed to stage files'' (ExitError [''git'', ''add'', ''.''])),
      Some (Wrapped ''failed to create initial commit'' (ExitError (commitArgv config))),
      Some (Errorf ''git commit timed out after 10 seconds'')}"
  using commitStep_results [of E config "snd (runCmd E [''git'', ''add'', ''.'']
          (gitIdentity E config (snd (runCmd E [''git'', ''init''] w))))"]
  by (auto simp: initializeGit_stages fst_andThen fst_wrapErr runCmd_fst split: option.splits)

lemma initializeGit_stage_fails:
  "fst (run E [''git'', ''init''] (tree w)) \<Longrightarrow> \<forall>t. \<not> fst (run E [''git'', ''add'', ''.''] t) \<Longrightarrow>
   fst (initializeGit E config w)
     = Some (Wrapped ''failed to stage files'' (ExitError [''git'', ''add'', ''.'']))"
  by (simp add: initializeGit_stages fst_andThen fst_wrapErr runCmd_fst)

lemma initializeGit_keeps_identity_events:
  assumes "fst (run E [''git'', ''init''] (tree w))"
  shows "set (events (gitIdentity E config (snd (runCmd E [''git'', ''init''] w))))
           \<subseteq> set (events (snd (initializeGit E config w)))"
  using assms stage_and_commit_grows
    [of "gitIdentity E config (snd (runCmd E [''git'', ''init''] w))" "''failed to stage files''" E
        "[''git'', ''add'', ''.'']" config]
  by (simp add: initializeGit_stages snd_andThen fst_wrapErr runCmd_fst set_mono_prefix)

lemma initializeGit_name_warns:
  assumes "fst (run E [''git'', ''init''] (tree w))"
    and "\<forall>t. \<not> fst (run E [''git'', ''config'', ''user.name'', Author config] t)"
  shows "Warn ''Failed to set git user.name''
              (ExitError [''git'', ''config'', ''user.name'', Author config])
           \<in> set (events (snd (initializeGit E config w)))"
proof -
  have "Warn ''Failed to set git user.name''
              (ExitError [''git'', ''config'', ''user.name'', Author config])
          \<in> set (events (gitIdentity E config (snd (runCmd E [''git'', ''init''] w))))"
    using assms(2) by (simp add: gitIdentity_def Let_def tryCmd_events)
  then show ?thesis
    using initializeGit_keeps_identity_events [OF assms(1)] by blast
qed

lemma initializeGit_email_warns:
  assumes "fst (run E [''git'', ''init''] (tree w))"
    and "\<forall>t. \<not> fst (run E [''git'', ''config'', ''user.email'', Email config] t)"
  shows "Warn ''Failed to set git user.email''
              (ExitError [''git'', ''config'', ''user.email'', Email config])
           \<in> set (events (snd (initializeGit E config w)))"
proof -
  have "Warn ''Failed to set git user.email''
              (ExitError [''git'', ''config'', ''user.email'', Email config])
          \<in> set (events (gitIdentity E config (snd (runCmd E [''git'', ''init''] w))))"
    using assms(2) by (simp add: gitIdentity_def Let_def tryCmd_events)
  then show ?thesis
    using initializeGit_keeps_identity_events [OF assms(1)] by blast
qed

lemma initializeGit_remote_warns:
  assumes "fst (run E [''git'', ''init''] (tree w))" and "GitRemote config \<noteq> []"
    and "\<forall>t. \<not> fst (run E [''git'', ''remote'', ''add'', ''origin'', GitRemote config] t)"
  shows "Warn ''Failed to add git remote''
              (ExitError [''git'', ''remote'', ''add'', ''origin'', GitRemote config])
           \<in> set (events (snd (initializeGit E config w)))"
proof -
  have "Warn ''Failed to add git remote''
              (ExitError [''git'', ''remote'', ''add'', ''origin'', GitRemote config])
          \<in> set (events (gitIdentity E config (snd (runCmd E [''git'', ''init''] w))))"
    using assms(2,3) by (simp add: gitIdentity_def Let_def tryCmd_events)
  then show ?thesis
    using initializeGit_keeps_identity_events [OF assms(1)] by blast
qed

text \<open>
  C8: the result of \<open>initializeProject\<close> is the result of its required steps, so no
  error of the version-control bootstrapper or of the hook installer makes it fail; when the
  required steps succeed and the bootstrapper or the installer returns an error, the warning
  with that error is among the events of the run, and \<open>main\<close> exits with status 0.
  Within \<open>initializeGit\<close>, a failing \<^verbatim>\<open>git init\<close> and a
  failing \<^verbatim>\<open>git add\<close> are returned to the caller; the only errors it ever
  returns are those two, a failed commit and the timeout; and a failing
  \<^verbatim>\<open>git config user.name\<close>,
  \<^verbatim>\<open>git config user.email\<close> or \<^verbatim>\<open>git remote add\<close>
  is printed as a warning and not returned.
\<close>

theorem best_effort_errors:
  "fst (initializeProject E config w) = fst (requiredSteps E config w)
   \<and> (fst (requiredSteps E config w) = None \<longrightarrow>
        (\<forall>err. getenv E ''SKIP_GIT_INIT'' = []
               \<and> fst (initializeGit E config (snd (requiredSteps E config w))) = Some err
             \<longrightarrow> Warn ''Failed to initialize git'' err
                   \<in> set (events (snd (initializeProject E config w))))
      \<and> (\<forall>err. fst (setupPreCommitHooks E (gitBlock E config (snd (requiredSteps E config w))))
                 = Some err
             \<longrightarrow> Warn ''Failed to setup pre-commit hooks'' err
                   \<in> set (events (snd (initializeProject E config w)))))
   \<and> (\<forall>w0 w1. gatherProjectInfo E (emit (Print ''Go Template Project Initialization'') w0)
                 = (Returned (Inr config), w1)
               \<and> fst (requiredSteps E config w1) = None
             \<longrightarrow> fst (main E w0) = 0)
   \<and> (\<not> fst (run E [''git'', ''init''] (tree w)) \<longrightarrow>
        fst (initializeGit E config w)
          = Some (Wrapped ''failed to initialize git'' (ExitError [''git'', ''init''])))
   \<and> (fst (run E [''git'', ''init''] (tree w)) \<and> (\<forall>t. \<not> fst (run E [''git'', ''add'', ''.''] t)) \<longrightarrow>
        fst (initializeGit E config w)
          = Some (Wrapped ''failed to stage files'' (ExitError [''git'', ''add'', ''.''])))
   \<and> fst (initializeGit E config w) \<in>
        {None,
         Some (Wrapped ''failed to initialize git'' (ExitError [''git'', ''init''])),
         Some (Wrapped ''failed to stage files'' (ExitError [''git'', ''add'', ''.''])),
         Some (Wrapped ''failed to create initial commit'' (ExitError (commitArgv config))),
         Some (Errorf ''git commit timed out after 10 seconds'')}
   \<and> (fst (run E [''git'', ''init''] (tree w))
        \<and> (\<forall>t. \<not> fst (run E [''git'', ''config'', ''user.name'', Author config] t)) \<longrightarrow>
        Warn ''Failed to set git user.name''
             (ExitError [''git'', ''config'', ''user.name'', Author config])
          \<in> set (events (snd (initializeGit E config w))))
   \<and> (fst (run E [''git'', ''init''] (tree w))
        \<and> (\<forall>t. \<not> fst (run E [''git'', ''config'', ''user.email'', Email config] t)) \<longrightarrow>
        Warn ''Failed to set git user.email''
             (ExitError [''git'', ''config'', ''user.email'', Email config])
          \<in> set (events (snd (initializeGit E config w))))
   \<and> (fst (run E [''git'', ''init''] (tree w)) \<and> GitRemote config \<noteq> []
        \<and> (\<forall>t. \<not> fst (run E [''git'', ''remote'', ''add'', ''origin'', GitRemote config] t)) \<longrightarrow>
        Warn ''Failed to add git remote''
             (ExitError [''git'', ''remote'', ''add'', ''origin'', GitRemote config])
          \<in> set (events (snd (initializeGit E config w))))"
proof (intro conjI impI allI)
  show "fst (initializeProject E config w) = fst (requiredSteps E config w)"
    by (rule initializeProject_result)
next
  fix err
  assume ok: "fst (requiredSteps E config w) = None"
    and g: "getenv E ''SKIP_GIT_INIT'' = []
            \<and> fst (initializeGit E config (snd (requiredSteps E config w))) = Some err"
  have "Warn ''Failed to initialize git'' err
          \<in> set (events (gitBlock E config (snd (requiredSteps E config w))))"
    using g by (simp add: gitBlock_warns)
  then have "Warn ''Failed to initialize git'' err
          \<in> set (events (hooksBlock E (gitBlock E config (snd (requiredSteps E config w)))))"
    using hooksBlock_grows [of "gitBlock E config (snd (requiredSteps E config w))" E]
      set_mono_prefix by blast
  then show "Warn ''Failed to initialize git'' err
          \<in> set (events (snd (initializeProject E config w)))"
    unfolding initializeProject_world [OF ok] using cleanup_keeps_events by blast
next
  fix err
  assume ok: "fst (requiredSteps E config w) = None"
    and h: "fst (setupPreCommitHooks E (gitBlock E config (snd (requiredSteps E config w))))
              = Some err"
  have "Warn ''Failed to setup pre-commit hooks'' err
          \<in> set (events (hooksBlock E (gitBlock E config (snd (requiredSteps E config w)))))"
    using h by (rule hooksBlock_warns)
  then show "Warn ''Failed to setup pre-commit hooks'' err
          \<in> set (events (snd (initializeProject E config w)))"
    unfolding initializeProject_world [OF ok] using cleanup_keeps_events by blast
next
  fix w0 w1
  assume a: "gatherProjectInfo E (emit (Print ''Go Template Project Initialization'') w0)
               = (Returned (Inr config), w1)
             \<and> fst (requiredSteps E config w1) = None"
  then have "fst (initializeProject E config w1) = None"
    by (simp add: initializeProject_result)
  then show "fst (main E w0) = 0"
    using a by (cases "initializeProject E config w1") (simp add: main_def)
next
  assume "\<not> fst (run E [''git'', ''init''] (tree w))"
  then show "fst (initializeGit E config w)
          = Some (Wrapped ''failed to initialize git'' (ExitError [''git'', ''init'']))"
    by (rule initializeGit_init_fails)
next
  assume "fst (run E [''git'', ''init''] (tree w)) \<and> (\<forall>t. \<not> fst (run E [''git'', ''add'', ''.''] t))"
  then show "fst (initializeGit E config w)
          = Some (Wrapped ''failed to stage files'' (ExitError [''git'', ''add'', ''.'']))"
    by (simp add: initializeGit_stage_fails)
next
  show "fst (initializeGit E config w) \<in>
        {None,
         Some (Wrapped ''failed to initialize git'' (ExitError [''git'', ''init''])),
         Some (Wrapped ''failed to stage files'' (ExitError [''git'', ''add'', ''.''])),
         Some (Wrapped ''failed to create initial commit'' (ExitError (commitArgv config))),
         Some (Errorf ''git commit timed out after 10 seconds'')}"
    by (rule initializeGit_results)
next
  assume "fst (run E [''git'', ''init''] (tree w))
        \<and> (\<forall>t. \<not> fst (run E [''git'', ''config'', ''user.name'', Author config] t))"
  then show "Warn ''Failed to set git user.name''
             (ExitError [''git'', ''config'', ''user.name'', Author config])
          \<in> set (events (snd (initializeGit E config w)))"
    by (simp add: initializeGit_name_warns)
next
  assume "fst (run E [''git'', ''init''] (tree w))
        \<and> (\<forall>t. \<not> fst (run E [''git'', ''config'', ''user.email'', Email config] t))"
  then show "Warn ''Failed to set git user.email''
             (ExitError [''git'', ''config'', ''user.email'', Email config])
          \<in> set (events (snd (initializeGit E config w)))"
    by (simp add: initializeGit_email_warns)
next
  assume "fst (run E [''git'', ''init''] (tree w)) \<and> GitRemote config \<noteq> []
        \<and> (\<forall>t. \<not> fst (run E [''git'', ''remote'', ''add'', ''origin'', GitRemote config] t))"
  then show "Warn ''Failed to add git remote''
             (ExitError [''git'', ''remote'', ''add'', ''origin'', GitRemote config])
          \<in> set (events (snd (initializeGit E config w)))"
    by (simp add: initializeGit_remote_warns)
qed

lemma osRemove_tree:
  "tree (snd (osRemove p w)) =
     (if fst (osRemove p w) = None then filter (\<lambda>(q, n). q \<noteq> p) (tree w) else tree w)"
  by (simp add: osRemove_def Let_def split: option.splits)

lemma osRemove_ok:
  "fst (osRemove p w) = None \<longleftrightarrow>
     (\<exists>n. lookup w p = Some n \<and> \<not> locked w p
          \<and> \<not> (IsDir n \<and> list_ex (\<lambda>(q, n'). q \<noteq> p \<and> under p q) (tree w)))"
  by (auto simp: osRemove_def Let_def split: option.splits)

lemma removeInitScript_tree:
  "tree (removeInitScript w) =
     (if fst (osRemove ''scripts/init.go'' w) = None
      then filter (\<lambda>(q, n). q \<noteq> ''scripts/init.go'') (tree w) else tree w)"
proof -
  let ?w = "emit (Print ''Removing initialization script...'') w"
  have "tree (removeInitScript w) = tree (snd (osRemove ''scripts/init.go'' ?w))"
    by (cases "osRemove ''scripts/init.go'' ?w") (auto simp: removeInitScript_def split: option.splits)
  then show ?thesis
    by (simp add: osRemove_tree)
qed

lemma removeScriptsDirectory_tree:
  "tree (removeScriptsDirectory w) =
     (if fst (osRemove ''scripts'' w) = None
      then filter (\<lambda>(q, n). q \<noteq> ''scripts'') (tree w) else tree w)"
proof (cases "osStat ''scripts'' w = Inl (ENOENT ''scripts'')")
  case True
  then have "lookup w ''scripts'' = None"
    by (auto simp: osStat_def split: if_splits option.splits)
  then have "fst (osRemove ''scripts'' w) \<noteq> None"
    by (simp add: osRemove_ok)
  then show ?thesis
    using True by (auto simp: removeScriptsDirectory_def removeEmptyDirectory_def IsNotExist_def)
next
  case False
  then have "removeEmptyDirectory ''scripts'' w = osRemove ''scripts'' w"
    by (auto simp: removeEmptyDirectory_def IsNotExist_def osStat_def
        split: sum.splits error.splits option.splits if_splits)
  then have "tree (removeScriptsDirectory w) = tree (snd (osRemove ''scripts'' w))"
    by (cases "osRemove ''scripts'' w") (auto simp: removeScriptsDirectory_def split: option.splits)
  then show ?thesis by (simp add: osRemove_tree)
qed

text \<open>
  C10: when the required steps have succeeded, whatever the configuration,
  \<open>initializeProject\<close> returns no error and ends with the two removals: it calls
  \<^verbatim>\<open>os.Remove\<close> on \<^verbatim>\<open>scripts/init.go\<close> and prints
  a warning with the error if that fails, then, unless \<^verbatim>\<open>scripts\<close> does
  not exist, calls \<^verbatim>\<open>os.Remove\<close> on \<^verbatim>\<open>scripts\<close>
  and prints the error if that fails. Each removal that succeeds takes its entry out of the
  tree, and a removal succeeds exactly on an existing entry that is not locked and is a file or
  a directory with nothing below it: the directory goes if it is empty.
\<close>

theorem final_cleanup:
  "fst (requiredSteps E config w) = None \<longrightarrow>
     (let w2 = hooksBlock E (gitBlock E config (snd (requiredSteps E config w)));
          w3 = removeInitScript w2;
          final = snd (initializeProject E config w)
      in fst (initializeProject E config w) = None
       \<and> final = removeScriptsDirectory w3
       \<and> events w3 =
           events w2 @ [Print ''Removing initialization script...'', SysRemove ''scripts/init.go'']
             @ (case fst (osRemove ''scripts/init.go'' w2) of
                  None \<Rightarrow> []
                | Some err \<Rightarrow> [Warn ''Failed to remove init script'' err,
                               Print ''   You can remove it manually: rm scripts/init.go''])
       \<and> events final =
           events w3 @ (if osStat ''scripts'' w3 = Inl (ENOENT ''scripts'') then []
                        else SysRemove ''scripts'' #
                             (case fst (osRemove ''scripts'' w3) of
                                None \<Rightarrow> []
                              | Some err \<Rightarrow> [Warn ''Could not remove scripts directory'' err]))
       \<and> tree w3 =
           (if fst (osRemove ''scripts/init.go'' w2) = None
            then filter (\<lambda>(q, n). q \<noteq> ''scripts/init.go'') (tree w2) else tree w2)
       \<and> tree final =
           (if fst (osRemove ''scripts'' w3) = None
            then filter (\<lambda>(q, n). q \<noteq> ''scripts'') (tree w3) else tree w3)
       \<and> (\<forall>p w'. fst (osRemove p w') = None \<longleftrightarrow>
             (\<exists>n. lookup w' p = Some n \<and> \<not> locked w' p
                  \<and> \<not> (IsDir n \<and> list_ex (\<lambda>(q, n'). q \<noteq> p \<and> under p q) (tree w')))))"
proof
  assume ok: "fst (requiredSteps E config w) = None"
  show "let w2 = hooksBlock E (gitBlock E config (snd (requiredSteps E config w)));
          w3 = removeInitScript w2;
          final = snd (initializeProject E config w)
      in fst (initializeProject E config w) = None
       \<and> final = removeScriptsDirectory w3
       \<and> events w3 =
           events w2 @ [Print ''Removing initialization script...'', SysRemove ''scripts/init.go'']
             @ (case fst (osRemove ''scripts/init.go'' w2) of
                  None \<Rightarrow> []
                | Some err \<Rightarrow> [Warn ''Failed to remove init script'' err,
                               Print ''   You can remove it manually: rm scripts/init.go''])
       \<and> events final =
           events w3 @ (if osStat ''scripts'' w3 = Inl (ENOENT ''scripts'') then []
                        else SysRemove ''scripts'' #
                             (case fst (osRemove ''scripts'' w3) of
                                None \<Rightarrow> []
                              | Some err \<Rightarrow> [Warn ''Could not remove scripts directory'' err]))
       \<and> tree w3 =
           (if fst (osRemove ''scripts/init.go'' w2) = None
            then filter (\<lambda>(q, n). q \<noteq> ''scripts/init.go'') (tree w2) else tree w2)
       \<and> tree final =
           (if fst (osRemove ''scripts'' w3) = None
            then filter (\<lambda>(q, n). q \<noteq> ''scripts'') (tree w3) else tree w3)
       \<and> (\<forall>p w'. fst (osRemove p w') = None \<longleftrightarrow>
             (\<exists>n. lookup w' p = Some n \<and> \<not> locked w' p
                  \<and> \<not> (IsDir n \<and> list_ex (\<lambda>(q, n'). q \<noteq> p \<and> under p q) (tree w'))))"
    unfolding Let_def initializeProject_world [OF ok] initializeProject_result ok
    by (intro conjI allI refl removeInitScript_events removeScriptsDirectory_events
        removeInitScript_tree removeScriptsDirectory_tree osRemove_ok)
qed

lemma sample_gather:
  "fst (gatherProjectInfo sample_env
          (emit (Print ''Go Template Project Initialization'') (scripts_world\<lparr>stdin := sample_input\<rparr>)))
     = Returned (Inr sample_config)"
  by (simp add: gatherProjectInfo_def sample_env_def Base_def promptWithDefault_def promptBool_def
      prompt_def getGitConfig_def ReadString_def emit_def scripts_world_def sample_input_def
      TrimSpace_def ToLower_def toLower_def space1_def space2_def space3_def Let_def
      isValidProjectName_def isValidModulePath_def MatchString_def projectNamePattern_def
      modulePathPattern_def cls_alnum_def cls_alnum_hyphen_def cls_alnum_hyphen_us_dot_def
      cls_slash_def in_class_def defaultLicense_def defaultAuthor_def defaultEmail_def
      sample_config_def)

lemmas eval_defs =
  requiredSteps_def updateGoMod_def osWriteFile_def Let_def locked_def lookup_def
  parent_def sample_config_def wrapErr_def mode_644_def emit_def
  updateImportPaths_def rewriteFile_def HasSuffix_def osReadFile_def oldPath_def
  removeUnwantedComponents_def osRemoveAll_def under_def pinned_def
  cleanupTemplateArtifacts_def removeFileIfExists_def osStat_def IsNotExist_def
  cleanupDocumentationReferences_def updateDocumentationFile_def sample_env_def
  generateReadme_def mode_666_def initializeProject_def gitBlock_def hooksBlock_def
  initializeGit_def setupPreCommitHooks_def runCmd_def removeInitScript_def
  removeScriptsDirectory_def removeEmptyDirectory_def osRemove_def commitTimeoutSeconds_def

lemma scripts_required2:
  "fst (requiredSteps sample_env sample_config scripts_world2) = None"
  by (simp add: eval_defs scripts_world2_def)

text \<open>
  C10, on a tree where both removals succeed and on one where both fail.
\<close>

theorem final_cleanup_witness:
  "fst (initializeProject sample_env sample_config scripts_world) = None
   \<and> filter is_mutation (events (snd (initializeProject sample_env sample_config scripts_world)))
       = [SysWriteFile ''go.mod'', SysRemoveAll ''cmd/server'', SysRemoveAll ''internal/handlers'',
          SysRemoveAll ''cmd/worker'', SysRemoveAll ''tests'', SysWriteFile ''README.md'',
          SysExec [''git'', ''init''], SysExec [''pre-commit'', ''--version''],
          SysRemove ''scripts/init.go'', SysRemove ''scripts'']
   \<and> lookup (snd (initializeProject sample_env sample_config scripts_world)) ''scripts/init.go'' = None
   \<and> lookup (snd (initializeProject sample_env sample_config scripts_world)) ''scripts'' = None
   \<and> fst (initializeProject sample_env sample_config scripts_world2) = None
   \<and> Warn ''Failed to remove init script'' (ENOENT ''scripts/init.go'')
       \<in> set (events (snd (initializeProject sample_env sample_config scripts_world2)))
   \<and> Warn ''Could not remove scripts directory'' (ENOTEMPTY ''scripts'')
       \<in> set (events (snd (initializeProject sample_env sample_config scripts_world2)))"
proof -
  note A = final_cleanup [of sample_env sample_config scripts_world, rule_format, OF scripts_required]
  note B = final_cleanup [of sample_env sample_config scripts_world2, rule_format, OF scripts_required2]
  have a: "fst (initializeProject sample_env sample_config scripts_world) = None"
    using A by (simp only: Let_def)
  have b: "fst (initializeProject sample_env sample_config scripts_world2) = None"
    using B by (simp only: Let_def)
  have c: "snd (initializeProject sample_env sample_config scripts_world) =
      \<lparr>tree = [(''go.mod'', File (''module example.com/acme/demo-app'' @ [CHR 0x0A, CHR 0x0A]
                   @ ''go 1.23'' @ [CHR 0x0A, CHR 0x0A] @ ''require ('' @ [CHR 0x0A, CHR 0x09]
                   @ ''// Runtime dependencies will be added as needed'' @ [CHR 0x0A] @ '')''
                   @ [CHR 0x0A]) 420),
               (''README.md'', File ''# demo-app'' 438)],
       noaccess = [], readonly = [], stdin = [],
       events = [SysWriteFile ''go.mod'', SysRemoveAll ''cmd/server'',
          SysRemoveAll ''internal/handlers'', SysRemoveAll ''cmd/worker'', SysRemoveAll ''tests'',
          Print ''Cleaning up template artifacts...'', Print ''Scheduled init script for removal'',
          SysWriteFile ''README.md'', SysExec [''git'', ''init''],
          Warn ''Failed to initialize git''
            (Wrapped ''failed to initialize git'' (ExitError [''git'', ''init''])),
          Print ''   Continuing without git initialization...'',
          SysExec [''pre-commit'', ''--version''],
          Warn ''Failed to setup pre-commit hooks'' (Errorf ''pre-commit not installed''),
          Print ''   You can set them up later with: pre-commit install'',
          Print ''Removing initialization script...'', SysRemove ''scripts/init.go'',
          SysRemove ''scripts'']\<rparr>"
    by (simp add: eval_defs scripts_world_def)
  have d: "Warn ''Failed to remove init script'' (ENOENT ''scripts/init.go'')
       \<in> set (events (snd (initializeProject sample_env sample_config scripts_world2)))"
    "Warn ''Could not remove scripts directory'' (ENOTEMPTY ''scripts'')
       \<in> set (events (snd (initializeProject sample_env sample_config scripts_world2)))"
    by (simp_all add: eval_defs scripts_world2_def)
  show ?thesis
    using a b d by (simp add: c lookup_def)
qed

text \<open>
  C8, in an environment where every external command fails, and in one where only
  \<^verbatim>\<open>git init\<close> succeeds.
\<close>

theorem best_effort_errors_witness:
  "fst (initializeProject sample_env sample_config scripts_world) = None
   \<and> Warn ''Failed to initialize git''
          (Wrapped ''failed to initialize git'' (ExitError [''git'', ''init'']))
       \<in> set (events (snd (initializeProject sample_env sample_config scripts_world)))
   \<and> Warn ''Failed to setup pre-commit hooks'' (Errorf ''pre-commit not installed'')
       \<in> set (events (snd (initializeProject sample_env sample_config scripts_world)))
   \<and> fst (main sample_env (scripts_world\<lparr>stdin := sample_input\<rparr>)) = 0
   \<and> fst (initializeGit sample_env2 sample_config2 scripts_world)
       = Some (Wrapped ''failed to stage files'' (ExitError [''git'', ''add'', ''.'']))
   \<and> Warn ''Failed to set git user.name''
          (ExitError [''git'', ''config'', ''user.name'', ''A. Author''])
       \<in> set (events (snd (initializeGit sample_env2 sample_config2 scripts_world)))
   \<and> Warn ''Failed to set git user.email''
          (ExitError [''git'', ''config'', ''user.email'', ''author@example.com''])
       \<in> set (events (snd (initializeGit sample_env2 sample_config2 scripts_world)))
   \<and> Warn ''Failed to add git remote''
          (ExitError [''git'', ''remote'', ''add'', ''origin'', ''git@example.com:acme/demo-app.git''])
       \<in> set (events (snd (initializeGit sample_env2 sample_config2 scripts_world)))"
proof -
  note A = best_effort_errors [of sample_env sample_config scripts_world]
  note B = best_effort_errors [of sample_env2 sample_config2 scripts_world]
  have ok: "fst (requiredSteps sample_env sample_config scripts_world) = None"
    by (rule scripts_required)
  have a1: "fst (initializeProject sample_env sample_config scripts_world) = None"
    using A [THEN conjunct1] ok by simp
  have g: "getenv sample_env ''SKIP_GIT_INIT'' = []
      \<and> fst (initializeGit sample_env sample_config
                (snd (requiredSteps sample_env sample_config scripts_world)))
          = Some (Wrapped ''failed to initialize git'' (ExitError [''git'', ''init'']))"
    by (simp add: initializeGit_init_fails sample_env_def)
  have a2: "Warn ''Failed to initialize git''
          (Wrapped ''failed to initialize git'' (ExitError [''git'', ''init'']))
       \<in> set (events (snd (initializeProject sample_env sample_config scripts_world)))"
    using A [THEN conjunct2, THEN conjunct1, rule_format, OF ok, THEN conjunct1, rule_format, OF g] .
  have h: "fst (setupPreCommitHooks sample_env
                 (gitBlock sample_env sample_config
                    (snd (requiredSteps sample_env sample_config scripts_world))))
             = Some (Errorf ''pre-commit not installed'')"
    by (simp add: setupPreCommitHooks_def runCmd_def sample_env_def split: prod.splits)
  have a3: "Warn ''Failed to setup pre-commit hooks'' (Errorf ''pre-commit not installed'')
       \<in> set (events (snd (initializeProject sample_env sample_config scripts_world)))"
    using A [THEN conjunct2, THEN conjunct1, rule_format, OF ok, THEN conjunct2, rule_format, OF h] .
  obtain w1 where gw: "gatherProjectInfo sample_env
          (emit (Print ''Go Template Project Initialization'') (scripts_world\<lparr>stdin := sample_input\<rparr>))
        = (Returned (Inr sample_config), w1)"
    using sample_gather
    by (cases "gatherProjectInfo sample_env
          (emit (Print ''Go Template Project Initialization'') (scripts_world\<lparr>stdin := sample_input\<rparr>))")
       simp
  have w1: "w1 = snd (gatherProjectInfo sample_env
          (emit (Print ''Go Template Project Initialization'') (scripts_world\<lparr>stdin := sample_input\<rparr>)))"
    by (simp add: gw)
  have ok1: "fst (requiredSteps sample_env sample_config w1) = None"
    unfolding w1
    by (simp add: gatherProjectInfo_def sample_env_def Base_def promptWithDefault_def promptBool_def
      prompt_def getGitConfig_def ReadString_def scripts_world_def sample_input_def
      TrimSpace_def ToLower_def toLower_def space1_def space2_def space3_def
      isValidProjectName_def isValidModulePath_def MatchString_def projectNamePattern_def
      modulePathPattern_def cls_alnum_def cls_alnum_hyphen_def cls_alnum_hyphen_us_dot_def
      cls_slash_def in_class_def defaultLicense_def defaultAuthor_def defaultEmail_def eval_defs)
  have a4: "fst (main sample_env (scripts_world\<lparr>stdin := sample_input\<rparr>)) = 0"
    using A [THEN conjunct2, THEN conjunct2, THEN conjunct1, rule_format, of _ w1] gw ok1 by blast
  have i: "fst (run sample_env2 [''git'', ''init''] (tree scripts_world))"
    by (simp add: sample_env2_def)
  have b1: "fst (initializeGit sample_env2 sample_config2 scripts_world)
       = Some (Wrapped ''failed to stage files'' (ExitError [''git'', ''add'', ''.'']))"
    using B [THEN conjunct2, THEN conjunct2, THEN conjunct2, THEN conjunct2, THEN conjunct1] i
    by (simp add: sample_env2_def)
  have b2: "Warn ''Failed to set git user.name''
          (ExitError [''git'', ''config'', ''user.name'', ''A. Author''])
       \<in> set (events (snd (initializeGit sample_env2 sample_config2 scripts_world)))"
    using B [THEN conjunct2, THEN conjunct2, THEN conjunct2, THEN conjunct2, THEN conjunct2,
             THEN conjunct2, THEN conjunct1] i
    by (simp add: sample_env2_def sample_config2_def sample_config_def)
  have b3: "Warn ''Failed to set git user.email''
          (ExitError [''git'', ''config'', ''user.email'', ''author@example.com''])
       \<in> set (events (snd (initializeGit sample_env2 sample_config2 scripts_world)))"
    using B [THEN conjunct2, THEN conjunct2, THEN conjunct2, THEN conjunct2, THEN conjunct2,
             THEN conjunct2, THEN conjunct2, THEN conjunct1] i
    by (simp add: sample_env2_def sample_config2_def sample_config_def)
  have b4: "Warn ''Failed to add git remote''
          (ExitError [''git'', ''remote'', ''add'', ''origin'', ''git@example.com:acme/demo-app.git''])
       \<in> set (events (snd (initializeGit sample_env2 sample_config2 scripts_world)))"
    using B [THEN conjunct2, THEN conjunct2, THEN conjunct2, THEN conjunct2, THEN conjunct2,
             THEN conjunct2, THEN conjunct2, THEN conjunct2] i
    by (simp add: sample_env2_def sample_config2_def sample_config_def)
  show ?thesis using a1 a2 a3 a4 b1 b2 b3 b4 by simp
qed

section \<open>Gathering: proofs\<close>

lemma mutations_emit_Print [simp]: "mutations (emit (Print s) w) = mutations w"
  by (simp add: mutations_def emit_def)

lemma mutations_emit_Warn [simp]: "mutations (emit (Warn s e) w) = mutations w"
  by (simp add: mutations_def emit_def)

lemma mutations_emit_SysQuery [simp]: "mutations (emit (SysQuery a) w) = mutations w"
  by (simp add: mutations_def emit_def)

lemma linesLeft_emit [simp]: "linesLeft (emit e w) = linesLeft w"
  by (simp add: linesLeft_def emit_def)

lemma ReadString_quiet [simp]:
  "tree (snd (ReadString w)) = tree w" "mutations (snd (ReadString w)) = mutations w"
  by (simp_all add: ReadString_def Let_def mutations_def)

lemma count_list_split:
  "c \<in> set xs \<Longrightarrow> count_list xs c = Suc (count_list (tl (dropWhile (\<lambda>x. x \<noteq> c) xs)) c)"
  by (induction xs) auto

lemma count_list_zero: "count_list xs c = 0 \<longleftrightarrow> c \<notin> set xs"
  by (induction xs) auto

lemma ReadString_lines [simp]: "linesLeft (snd (ReadString w)) = linesLeft w - 1"
  using count_list_split [of "CHR 0x0A" "stdin w"] count_list_zero [of "stdin w" "CHR 0x0A"]
  by (auto simp: ReadString_def Let_def linesLeft_def)


lemma promptWithDefault_quiet [simp]:
  "tree (snd (promptWithDefault q d w)) = tree w"
  "mutations (snd (promptWithDefault q d w)) = mutations w"
  "linesLeft (snd (promptWithDefault q d w)) = linesLeft w - 1"
  by (simp_all add: promptWithDefault_def split_def Let_def)

lemma prompt_quiet [simp]:
  "tree (snd (prompt q w)) = tree w"
  "mutations (snd (prompt q w)) = mutations w"
  "linesLeft (snd (prompt q w)) = linesLeft w - 1"
  by (simp_all add: prompt_def split_def Let_def)

lemma promptBool_quiet [simp]:
  "tree (snd (promptBool q d w)) = tree w"
  "mutations (snd (promptBool q d w)) = mutations w"
  "linesLeft (snd (promptBool q d w)) = linesLeft w - 1"
  by (simp_all add: promptBool_def split_def Let_def)


lemma getGitConfig_quiet [simp]:
  "tree (snd (getGitConfig E k f w)) = tree w"
  "mutations (snd (getGitConfig E k f w)) = mutations w"
  "linesLeft (snd (getGitConfig E k f w)) = linesLeft w"
  by (simp_all add: getGitConfig_def Let_def split: option.splits)












end
